theory Spec2Isabelle
  imports Main "HOL-Library.AList"
begin

section \<open>The Transformer layer of blurr (blurr/core/transformer.py)\<close>

text \<open>
  The development embeds the two classes of \<^verbatim>\<open>blurr/core/transformer.py\<close>,
  \<^verbatim>\<open>TransformerSchema\<close> and \<^verbatim>\<open>Transformer\<close>. Python objects that are shared and
  mutated (evaluation contexts, DataGroups, the Store) live in an explicit heap and are
  designated by addresses; every method takes the heap and returns it together with
  either the value returned or the exception raised.

  Python attribute names that start with an underscore are written with the prefix
  \<open>p_\<close> (\<^verbatim>\<open>_spec\<close> is \<open>p_spec\<close>, \<^verbatim>\<open>_data_groups\<close> is \<open>p_data_groups\<close>).
\<close>

subsection \<open>Values, dictionaries and errors\<close>

type_synonym addr = nat

text \<open>
  A dictionary is an association list in insertion order. \<^verbatim>\<open>d[k] = v\<close> is
  \<^const>\<open>AList.update\<close>: an existing key keeps its position and takes the new value, a new
  key is appended. \<^verbatim>\<open>k in d\<close> is \<open>k \<in> fst ` set d\<close> and \<^verbatim>\<open>d[k]\<close> is \<open>map_of d k\<close>.
\<close>

type_synonym ('k, 'v) dict = "('k \<times> 'v) list"

text \<open>
  The attribute mapping handed over by the specification source: strings, sequences and
  nested mappings.
\<close>

datatype spec_value =
    SStr string
  | SList "spec_value list"
  | SMap "(string, spec_value) dict"

text \<open>
  The values bound in an evaluation context: strings, imported module objects (with their
  attributes), other imported objects (opaque: they have no attribute that the builtin
  \<^verbatim>\<open>getattr\<close> would find), and references to DataGroup objects.
\<close>

datatype pyvalue =
    StrVal string
  | ModuleVal string "(string, pyvalue) dict"
  | ObjVal string
  | DataGroupRef addr

datatype error =
    MissingAttributeError string
  | KeyError string
  | TypeError string
  | AttributeError string
  | ImportError string
  | UnknownTypeError string
  | StoreError string
  | DanglingReference addr

type_synonym scope = "(string, pyvalue) dict"

subsection \<open>The heap: evaluation contexts, DataGroups and the Store\<close>

text \<open>
  Modelled from the spec: the class \<^verbatim>\<open>EvaluationContext\<close> (blurr/core/evaluation.py is
  not among the sources). Section 3 describes it as a mutable named-value scope with a
  parent (global) scope: lookup is local first, then global; \<^verbatim>\<open>bind_global\<close>
  (\<^verbatim>\<open>global_add\<close> in the code) writes into the root scope; \<^verbatim>\<open>merge\<close> makes every name
  bound in the merged mapping resolvable through the scope.
\<close>

record evaluation_context =
  global_context :: scope
  local_context :: scope

text \<open>The schema of one nested item, as far as the Transformer reads it.\<close>

record item_schema =
  schema_name :: string
  schema_type :: string

text \<open>
  Modelled from the spec: the class \<^verbatim>\<open>DataGroup\<close> (blurr/core/data_group.py is not among
  the sources). Sections 3 and 4.4: a DataGroup is built from its schema, the identity and
  a reference to the shared evaluation context; it owns its current field values, an
  optional window sub-key and an open/closed flag.
\<close>

record data_group =
  dg_schema :: item_schema
  dg_identity :: string
  dg_evaluation_context :: addr
  dg_fields :: "(string, pyvalue) dict"
  dg_sub_keys :: "string list"
  dg_closed :: bool

text \<open>
  Modelled from the spec: the Key of section 3 and the in-memory Store of section 4.3
  (\<^verbatim>\<open>set\<close> is an upsert). The test under tests/extended addresses DataGroup snapshots
  with keys of kind \<^verbatim>\<open>KeyType.DIMENSION\<close>.
\<close>

datatype key_type = IDENTITY | DIMENSION | TIMESTAMP

record store_key =
  key_type :: key_type
  key_identity :: string
  key_group_name :: string
  key_sub_keys :: "string list"

type_synonym snapshot = "(string, pyvalue) dict"

record heap =
  contexts :: "evaluation_context list"
  groups :: "data_group list"
  store :: "(store_key, snapshot) dict"

definition deref :: "'a list \<Rightarrow> addr \<Rightarrow> 'a option" where
  "deref objs a = (if a < length objs then Some (objs ! a) else None)"

text \<open>
  Modelled from the spec: the constructor \<^verbatim>\<open>EvaluationContext()\<close>, which the code calls
  without arguments (line 45); it yields a new scope object that binds nothing.
\<close>

definition new_context :: "heap \<Rightarrow> addr \<times> heap" where
  \<comment> \<open>\<^verbatim>\<open>EvaluationContext()\<close>: a fresh object with empty global and local scope\<close>
  "new_context h =
     (length (contexts h),
      h\<lparr>contexts := contexts h @ [\<lparr>global_context = [], local_context = []\<rparr>]\<rparr>)"

definition new_group :: "data_group \<Rightarrow> heap \<Rightarrow> addr \<times> heap" where
  "new_group g h = (length (groups h), h\<lparr>groups := groups h @ [g]\<rparr>)"

text \<open>
  Modelled from the spec: \<^verbatim>\<open>EvaluationContext.global_add\<close>, the \<^verbatim>\<open>bind_global\<close> of
  section 4.2, which writes the name into the root scope of the context, overwriting an
  earlier binding. A reference of Python always designates a live object; an address
  outside the heap is reported as \<^const>\<open>DanglingReference\<close>, a value of the model only.
\<close>

definition global_add :: "addr \<Rightarrow> string \<Rightarrow> pyvalue \<Rightarrow> heap \<Rightarrow> (error + unit) \<times> heap" where
  \<comment> \<open>\<^verbatim>\<open>ctx.global_add(key, value)\<close>\<close>
  "global_add c k v h =
     (case deref (contexts h) c of
        None \<Rightarrow> (Inl (DanglingReference c), h)
      | Some ec \<Rightarrow>
          (Inr (),
           h\<lparr>contexts :=
               (contexts h)[c := ec\<lparr>global_context := AList.update k v (global_context ec)\<rparr>]\<rparr>))"

text \<open>
  Modelled from the spec: the \<^verbatim>\<open>merge\<close> of a scope (section 4.2), which makes every name
  bound in the merged mapping resolvable through the scope. The entries the code merges
  are references to DataGroup objects, so a later change of a DataGroup is seen through
  the scope; the merged dictionary \<^verbatim>\<open>_data_groups\<close> itself is never changed after
  construction.
\<close>

definition dict_merge :: "('k, 'v) dict \<Rightarrow> ('k, 'v) dict \<Rightarrow> ('k, 'v) dict" where
  \<comment> \<open>\<^verbatim>\<open>d.merge(other)\<close>: every entry of \<open>other\<close>, in its order, is written into \<open>d\<close>\<close>
  "dict_merge d other = fold (\<lambda>(k, v). AList.update k v) other d"

text \<open>
  Modelled from the spec: \<^verbatim>\<open>merge\<close> applied to the root scope \<^verbatim>\<open>global_context\<close> of an
  evaluation context (line 79).
\<close>

definition global_merge :: "addr \<Rightarrow> scope \<Rightarrow> heap \<Rightarrow> (error + unit) \<times> heap" where
  \<comment> \<open>\<^verbatim>\<open>ctx.global_context.merge(other)\<close>\<close>
  "global_merge c other h =
     (case deref (contexts h) c of
        None \<Rightarrow> (Inl (DanglingReference c), h)
      | Some ec \<Rightarrow>
          (Inr (),
           h\<lparr>contexts :=
               (contexts h)[c := ec\<lparr>global_context := dict_merge (global_context ec) other\<rparr>]\<rparr>))"

text \<open>
  Modelled from the spec: \<^verbatim>\<open>resolve\<close> of section 4.2, local scope first and then the
  parent (global) scope; \<open>None\<close> stands for \<^verbatim>\<open>UndefinedNameError\<close>.
\<close>

definition resolve :: "heap \<Rightarrow> addr \<Rightarrow> string \<Rightarrow> pyvalue option" where
  \<comment> \<open>name resolution through an evaluation context: local scope first, then global\<close>
  "resolve h c k =
     (case deref (contexts h) c of
        None \<Rightarrow> None
      | Some ec \<Rightarrow>
          (case map_of (local_context ec) k of
             Some v \<Rightarrow> Some v
           | None \<Rightarrow> map_of (global_context ec) k))"

text \<open>Modelled from the spec: resolution in the root scope alone.\<close>

definition resolve_global :: "heap \<Rightarrow> addr \<Rightarrow> string \<Rightarrow> pyvalue option" where
  \<comment> \<open>lookup in the root (global) scope of an evaluation context\<close>
  "resolve_global h c k =
     (case deref (contexts h) c of
        None \<Rightarrow> None
      | Some ec \<Rightarrow> map_of (global_context ec) k)"

subsection \<open>The Transformer object\<close>

text \<open>
  The instance attributes of a \<^verbatim>\<open>Transformer\<close>: \<^verbatim>\<open>_data_groups\<close> and \<^verbatim>\<open>_identity\<close> are
  set by \<^verbatim>\<open>Transformer.__init__\<close>; \<^verbatim>\<open>_name\<close> and \<^verbatim>\<open>_evaluation_context\<close> come from
  the base class \<^verbatim>\<open>BaseItemCollection\<close>, which is not among the sources and is taken to
  keep the schema's name and the reference to the evaluation context it is given.
  The dictionary \<^verbatim>\<open>_data_groups\<close> holds references to the DataGroup objects.
\<close>

record transformer =
  p_name :: string
  p_identity :: string
  p_evaluation_context :: addr
  p_data_groups :: "(string, addr) dict"

definition nested_items :: "transformer \<Rightarrow> (string, addr) dict" where
  \<comment> \<open>the property \<^verbatim>\<open>_nested_items\<close>\<close>
  "nested_items t = p_data_groups t"

text \<open>
  \<^verbatim>\<open>Transformer.__getitem__\<close>. The method is given the object and the heap and returns
  them with its result.
\<close>

definition getitem ::
  "string \<Rightarrow> transformer \<times> heap \<Rightarrow> (error + addr) \<times> (transformer \<times> heap)" where
  "getitem item st =
     (let t = fst st in
      if item \<notin> fst ` set (nested_items t)
      then (Inl (MissingAttributeError (item @ '' not defined in '' @ p_name t)), st)
      else (case map_of (nested_items t) item of
              Some dg \<Rightarrow> (Inr dg, st)
            | None \<Rightarrow> (Inl (KeyError item), st)))"

text \<open>\<^verbatim>\<open>Transformer.__getattr__\<close> delegates to \<^verbatim>\<open>__getitem__\<close>.\<close>

definition getattr ::
  "string \<Rightarrow> transformer \<times> heap \<Rightarrow> (error + addr) \<times> (transformer \<times> heap)" where
  "getattr item st = getitem item st"

text \<open>
  Attribute access \<^verbatim>\<open>transformer.name\<close>. Python first looks the name up among the regular
  attributes of the object (instance attributes, and attributes of its class and base
  classes); \<^verbatim>\<open>__getattr__\<close> is called only when that lookup finds nothing. The regular
  attributes are a parameter: the base classes are not among the sources.
\<close>

datatype attr_value = DataGroupAttr addr | RegularAttr pyvalue

definition attribute_access ::
  "(string \<Rightarrow> pyvalue option) \<Rightarrow> string \<Rightarrow> transformer \<times> heap
     \<Rightarrow> (error + attr_value) \<times> (transformer \<times> heap)" where
  "attribute_access regular item st =
     (case regular item of
        Some v \<Rightarrow> (Inr (RegularAttr v), st)
      | None \<Rightarrow>
          (case getattr item st of
             (Inl e, st') \<Rightarrow> (Inl e, st')
           | (Inr dg, st') \<Rightarrow> (Inr (DataGroupAttr dg), st')))"

definition indexed_access ::
  "string \<Rightarrow> transformer \<times> heap \<Rightarrow> (error + attr_value) \<times> (transformer \<times> heap)" where
  \<comment> \<open>\<^verbatim>\<open>transformer[name]\<close>, with the result in the type of \<^const>\<open>attribute_access\<close>\<close>
  "indexed_access item st =
     (case getitem item st of
        (Inl e, st') \<Rightarrow> (Inl e, st')
      | (Inr dg, st') \<Rightarrow> (Inr (DataGroupAttr dg), st'))"

subsection \<open>Python operations on specification values\<close>

fun py_iter :: "spec_value \<Rightarrow> spec_value list" where
  \<comment> \<open>\<^verbatim>\<open>for x in v\<close>: the elements of a sequence, the keys of a mapping, the characters of a string\<close>
  "py_iter (SList xs) = xs"
| "py_iter (SMap m) = map (\<lambda>kv. SStr (fst kv)) m"
| "py_iter (SStr s) = map (\<lambda>c. SStr [c]) s"

fun subscript :: "spec_value \<Rightarrow> string \<Rightarrow> error + spec_value" where
  \<comment> \<open>\<^verbatim>\<open>v[k]\<close> for a string key \<open>k\<close>\<close>
  "subscript (SMap m) k = (case map_of m k of None \<Rightarrow> Inl (KeyError k) | Some v \<Rightarrow> Inr v)"
| "subscript (SStr s) k = Inl (TypeError ''string indices must be integers'')"
| "subscript (SList xs) k = Inl (TypeError ''list indices must be integers or slices, not str'')"

fun hashable :: "spec_value \<Rightarrow> error + string" where
  \<comment> \<open>the use of a value as a dictionary key: sequences and mappings are unhashable\<close>
  "hashable (SStr s) = Inr s"
| "hashable (SList xs) = Inl (TypeError ''unhashable type: list'')"
| "hashable (SMap m) = Inl (TypeError ''unhashable type: dict'')"

fun attribute_name :: "spec_value \<Rightarrow> error + string" where
  \<comment> \<open>the second argument of the builtin \<^verbatim>\<open>getattr\<close> must be a string\<close>
  "attribute_name (SStr s) = Inr s"
| "attribute_name (SList xs) = Inl (TypeError ''attribute name must be string, not list'')"
| "attribute_name (SMap m) = Inl (TypeError ''attribute name must be string, not dict'')"

fun substring :: "string \<Rightarrow> string \<Rightarrow> bool" where
  "substring k [] = (k = [])"
| "substring k (c # s) = (take (length k) (c # s) = k \<or> substring k s)"

fun py_in :: "string \<Rightarrow> spec_value \<Rightarrow> bool" where
  \<comment> \<open>\<^verbatim>\<open>k in v\<close>: a key of a mapping, an element of a sequence, a substring of a string\<close>
  "py_in k (SMap m) = (k \<in> fst ` set m)"
| "py_in k (SList xs) = (SStr k \<in> set xs)"
| "py_in k (SStr s) = substring k s"

fun py_getattr :: "pyvalue \<Rightarrow> string \<Rightarrow> error + pyvalue" where
  \<comment> \<open>the builtin \<^verbatim>\<open>getattr(obj, name)\<close> on an imported object\<close>
  "py_getattr (ModuleVal m attrs) i =
     (case map_of attrs i of None \<Rightarrow> Inl (AttributeError i) | Some v \<Rightarrow> Inr v)"
| "py_getattr (StrVal s) i = Inl (AttributeError i)"
| "py_getattr (ObjVal s) i = Inl (AttributeError i)"
| "py_getattr (DataGroupRef a) i = Inl (AttributeError i)"

subsection \<open>TransformerSchema\<close>

text \<open>
  \<^verbatim>\<open>SchemaLoader\<close> is not among the sources. The schema reads it through
  \<^verbatim>\<open>get_nested_schema_object\<close> only, which is a parameter here.
\<close>

record schema_loader =
  get_nested_schema_object :: "string \<Rightarrow> spec_value \<Rightarrow> error + item_schema"

text \<open>
  What the constructor of the base class \<^verbatim>\<open>BaseSchemaCollection\<close> (not among the
  sources) leaves on the object: the qualified name, the loader, the attribute mapping
  \<^verbatim>\<open>_spec\<close>, the name and the nested schemas in declaration order.
\<close>

record base_schema =
  fully_qualified_name :: string
  schema_loader :: schema_loader
  p_spec :: "(string, spec_value) dict"
  name :: string
  nested_schema :: "(string, item_schema) dict"

record transformer_schema = base_schema +
  version :: spec_value
  description :: "spec_value option"
  stores :: "(string, item_schema) dict"
  import_list :: "spec_value option"
  schema_context :: addr

definition ATTRIBUTE_NAME :: string where "ATTRIBUTE_NAME = ''Name''"
definition ATTRIBUTE_VERSION :: string where "ATTRIBUTE_VERSION = ''Version''"
definition ATTRIBUTE_DESCRIPTION :: string where "ATTRIBUTE_DESCRIPTION = ''Description''"
definition ATTRIBUTE_STORES :: string where "ATTRIBUTE_STORES = ''Stores''"
definition ATTRIBUTE_DATA_GROUPS :: string where "ATTRIBUTE_DATA_GROUPS = ''DataGroups''"
definition ATTRIBUTE_IMPORT :: string where "ATTRIBUTE_IMPORT = ''Import''"
definition ATTRIBUTE_IMPORT_MODULE :: string where "ATTRIBUTE_IMPORT_MODULE = ''Module''"
definition ATTRIBUTE_IMPORT_IDENTIFIER :: string where "ATTRIBUTE_IMPORT_IDENTIFIER = ''Identifier''"

text \<open>
  The dictionary comprehension of lines 37 to 41. For each entry the key
  \<^verbatim>\<open>schema_spec['Name']\<close> is evaluated, then the value (the loader is called), then
  the pair is stored, which hashes the key. A key already present is overwritten.
\<close>

fun load_stores ::
  "schema_loader \<Rightarrow> string \<Rightarrow> spec_value list \<Rightarrow> (string, item_schema) dict
     \<Rightarrow> error + (string, item_schema) dict" where
  "load_stores loader fqn [] d = Inr d"
| "load_stores loader fqn (schema_spec # rest) d =
     (case subscript schema_spec ATTRIBUTE_NAME of
        Inl e \<Rightarrow> Inl e
      | Inr k \<Rightarrow>
          (case get_nested_schema_object loader fqn k of
             Inl e \<Rightarrow> Inl e
           | Inr v \<Rightarrow>
               (case hashable k of
                  Inl e \<Rightarrow> Inl e
                | Inr ks \<Rightarrow> load_stores loader fqn rest (AList.update ks v d))))"

text \<open>The inner loop of \<^verbatim>\<open>import_modules\<close> (lines 59 and 60).\<close>

fun import_identifiers ::
  "addr \<Rightarrow> pyvalue \<Rightarrow> spec_value list \<Rightarrow> heap \<Rightarrow> (error + unit) \<times> heap" where
  "import_identifiers c module_obj [] h = (Inr (), h)"
| "import_identifiers c module_obj (identifier # rest) h =
     (case attribute_name identifier of
        Inl e \<Rightarrow> (Inl e, h)
      | Inr i \<Rightarrow>
          (case py_getattr module_obj i of
             Inl e \<Rightarrow> (Inl e, h)
           | Inr v \<Rightarrow>
               (case global_add c i v h of
                  (Inl e, h') \<Rightarrow> (Inl e, h')
                | (Inr u, h') \<Rightarrow> import_identifiers c module_obj rest h')))"

text \<open>
  The outer loop of \<^verbatim>\<open>import_modules\<close> (lines 52 to 60). \<^verbatim>\<open>TypeLoader\<close> is not among
  the sources: \<^verbatim>\<open>TypeLoader.import_by_full_name\<close> is the parameter \<open>importer\<close>. An entry
  that is not a mapping raises at \<^verbatim>\<open>custom_import['Module']\<close>. The \<^verbatim>\<open>return\<close> of
  line 57 leaves the method: the remaining entries are not visited.
\<close>

fun import_loop ::
  "(spec_value \<Rightarrow> error + pyvalue) \<Rightarrow> addr \<Rightarrow> spec_value list \<Rightarrow> heap
     \<Rightarrow> (error + unit) \<times> heap" where
  "import_loop importer c [] h = (Inr (), h)"
| "import_loop importer c (custom_import # rest) h =
     (case subscript custom_import ATTRIBUTE_IMPORT_MODULE of
        Inl e \<Rightarrow> (Inl e, h)
      | Inr module \<Rightarrow>
          (case importer module of
             Inl e \<Rightarrow> (Inl e, h)
           | Inr module_obj \<Rightarrow>
               if \<not> py_in ATTRIBUTE_IMPORT_IDENTIFIER custom_import
               then (case hashable module of
                       Inl e \<Rightarrow> (Inl e, h)
                     | Inr mk \<Rightarrow> global_add c mk module_obj h)
               else (case subscript custom_import ATTRIBUTE_IMPORT_IDENTIFIER of
                       Inl e \<Rightarrow> (Inl e, h)
                     | Inr ids \<Rightarrow>
                         (case import_identifiers c module_obj (py_iter ids) h of
                            (Inl e, h') \<Rightarrow> (Inl e, h')
                          | (Inr u, h') \<Rightarrow> import_loop importer c rest h'))))"

definition import_modules ::
  "(spec_value \<Rightarrow> error + pyvalue) \<Rightarrow> transformer_schema \<Rightarrow> heap \<Rightarrow> (error + unit) \<times> heap" where
  "import_modules importer self h =
     (case import_list self of
        None \<Rightarrow> (Inr (), h)
      | Some l \<Rightarrow> import_loop importer (schema_context self) (py_iter l) h)"

text \<open>
  \<^verbatim>\<open>TransformerSchema.__init__\<close>. The constructor of the base class is the parameter
  \<open>base_init\<close>, called with the qualified name, the loader and \<^verbatim>\<open>'DataGroups'\<close>.
\<close>

definition transformer_schema_init ::
  "(string \<Rightarrow> schema_loader \<Rightarrow> string \<Rightarrow> error + base_schema)
     \<Rightarrow> (spec_value \<Rightarrow> error + pyvalue)
     \<Rightarrow> string \<Rightarrow> schema_loader \<Rightarrow> heap \<Rightarrow> (error + transformer_schema) \<times> heap" where
  "transformer_schema_init base_init importer fqn loader h =
     (case base_init fqn loader ATTRIBUTE_DATA_GROUPS of
        Inl e \<Rightarrow> (Inl e, h)
      | Inr b \<Rightarrow>
          (case map_of (p_spec b) ATTRIBUTE_VERSION of
             None \<Rightarrow> (Inl (KeyError ATTRIBUTE_VERSION), h)
           | Some ver \<Rightarrow>
               (case load_stores (schema_loader b) (fully_qualified_name b)
                       (py_iter (case map_of (p_spec b) ATTRIBUTE_STORES of
                                   None \<Rightarrow> SList []
                                 | Some v \<Rightarrow> v)) [] of
                  Inl e \<Rightarrow> (Inl e, h)
                | Inr sts \<Rightarrow>
                    (let (c, h1) = new_context h;
                         self = \<lparr>fully_qualified_name = fully_qualified_name b,
                                 schema_loader = schema_loader b,
                                 p_spec = p_spec b,
                                 name = name b,
                                 nested_schema = nested_schema b,
                                 version = ver,
                                 description = map_of (p_spec b) ATTRIBUTE_DESCRIPTION,
                                 stores = sts,
                                 import_list = map_of (p_spec b) ATTRIBUTE_IMPORT,
                                 schema_context = c\<rparr>
                     in case import_modules importer self h1 of
                          (Inl e, h2) \<Rightarrow> (Inl e, h2)
                        | (Inr u, h2) \<Rightarrow> (Inr self, h2)))))"

subsection \<open>Transformer: construction and finalize\<close>

text \<open>
  Modelled from the spec: \<^verbatim>\<open>TypeLoader.load_item\<close> (blurr/core/loader.py is not among
  the sources). Section 4.1: a type name resolves to a constructible type through a
  registry, and fails with \<^verbatim>\<open>UnknownTypeError\<close> when no type matches. A constructor
  takes the item schema, the identity and the reference to the evaluation context.
\<close>

type_synonym item_constructor = "item_schema \<Rightarrow> string \<Rightarrow> addr \<Rightarrow> error + data_group"

definition load_item ::
  "(string \<Rightarrow> item_constructor option) \<Rightarrow> string \<Rightarrow> error + item_constructor" where
  "load_item registry type_name =
     (case registry type_name of
        None \<Rightarrow> Inl (UnknownTypeError type_name)
      | Some ctor \<Rightarrow> Inr ctor)"

definition construct_item ::
  "(string \<Rightarrow> item_constructor option) \<Rightarrow> item_schema \<Rightarrow> string \<Rightarrow> addr \<Rightarrow> error + data_group" where
  \<comment> \<open>\<^verbatim>\<open>TypeLoader.load_item(item_schema.type)(item_schema, identity, context)\<close>\<close>
  "construct_item registry item_schema identity c =
     (case load_item registry (schema_type item_schema) of
        Inl e \<Rightarrow> Inl e
      | Inr ctor \<Rightarrow> ctor item_schema identity c)"

text \<open>
  The dictionary comprehension of lines 72 to 76, over \<^verbatim>\<open>schema.nested_schema.items()\<close>:
  each DataGroup is constructed, placed in the heap and stored under its name.
\<close>

fun load_data_groups ::
  "(string \<Rightarrow> item_constructor option) \<Rightarrow> string \<Rightarrow> addr \<Rightarrow> (string, item_schema) dict
     \<Rightarrow> (string, addr) dict \<Rightarrow> heap \<Rightarrow> (error + (string, addr) dict) \<times> heap" where
  "load_data_groups registry identity c [] d h = (Inr d, h)"
| "load_data_groups registry identity c ((nm, item_schema) # rest) d h =
     (case construct_item registry item_schema identity c of
        Inl e \<Rightarrow> (Inl e, h)
      | Inr g \<Rightarrow>
          (let (a, h') = new_group g h
           in load_data_groups registry identity c rest (AList.update nm a d) h'))"

text \<open>
  \<^verbatim>\<open>Transformer.__init__\<close>. The base constructor receives \<^verbatim>\<open>schema.schema_context\<close> and
  keeps the reference (section 4.5 of the specification: every DataGroup is given a
  reference into a single shared evaluation context): \<^verbatim>\<open>self._evaluation_context\<close> is
  the very object \<^verbatim>\<open>schema.schema_context\<close>, not a copy.
\<close>

definition transformer_init ::
  "(string \<Rightarrow> item_constructor option) \<Rightarrow> transformer_schema \<Rightarrow> string \<Rightarrow> heap
     \<Rightarrow> (error + transformer) \<times> heap" where
  "transformer_init registry schema identity h =
     (let c = schema_context schema in
      case load_data_groups registry identity c (nested_schema schema) [] h of
        (Inl e, h1) \<Rightarrow> (Inl e, h1)
      | (Inr dgs, h1) \<Rightarrow>
          (let self = \<lparr>p_name = name schema, p_identity = identity,
                       p_evaluation_context = c, p_data_groups = dgs\<rparr>
           in case global_add (p_evaluation_context self) ''identity'' (StrVal (p_identity self)) h1 of
                (Inl e, h2) \<Rightarrow> (Inl e, h2)
              | (Inr u, h2) \<Rightarrow>
                  (case global_merge (p_evaluation_context self)
                          (map (\<lambda>(n, a). (n, DataGroupRef a)) (nested_items self)) h2 of
                     (Inl e, h3) \<Rightarrow> (Inl e, h3)
                   | (Inr u', h3) \<Rightarrow> (Inr self, h3))))"

text \<open>
  \<^verbatim>\<open>Transformer.finalize\<close>: the loop over \<^verbatim>\<open>self._nested_items.values()\<close>. The method
  \<^verbatim>\<open>finalize\<close> of a DataGroup is the parameter \<open>fin\<close>, acting on a state \<open>'w\<close>; an
  exception it raises leaves the loop. Beside the state the loop carries the list of the
  DataGroups on which \<^verbatim>\<open>finalize\<close> has been invoked, in order of invocation.
\<close>

fun finalize_items ::
  "(addr \<Rightarrow> 'w \<Rightarrow> (error + unit) \<times> 'w) \<Rightarrow> addr list \<Rightarrow> addr list \<times> 'w
     \<Rightarrow> (error + unit) \<times> (addr list \<times> 'w)" where
  "finalize_items fin [] (calls, w) = (Inr (), (calls, w))"
| "finalize_items fin (item # items) (calls, w) =
     (case fin item w of
        (Inl e, w') \<Rightarrow> (Inl e, (calls @ [item], w'))
      | (Inr u, w') \<Rightarrow> finalize_items fin items (calls @ [item], w'))"

definition finalize ::
  "(addr \<Rightarrow> 'w \<Rightarrow> (error + unit) \<times> 'w) \<Rightarrow> transformer \<Rightarrow> addr list \<times> 'w
     \<Rightarrow> (error + unit) \<times> (addr list \<times> 'w)" where
  "finalize fin self st = finalize_items fin (map snd (nested_items self)) st"

text \<open>
  Modelled from the spec: \<^verbatim>\<open>DataGroup.finalize\<close> (blurr/core/data_group.py is not among
  the sources). Section 4.4: finalize persists the final snapshot of a live DataGroup to
  the Store and marks it closed; section 5: a second call is a no-op once closed. The key
  is built from the identity, the schema name and the window sub-key (section 4.3).
\<close>

definition data_group_key :: "data_group \<Rightarrow> store_key" where
  "data_group_key g =
     \<lparr>key_type = DIMENSION, key_identity = dg_identity g,
      key_group_name = schema_name (dg_schema g), key_sub_keys = dg_sub_keys g\<rparr>"

text \<open>
  Modelled from the spec: \<^verbatim>\<open>DataGroup.finalize\<close>, as described above: a DataGroup that
  is not closed writes its snapshot to the Store under its key and becomes closed; a
  closed one is left as it is.
\<close>

definition data_group_finalize :: "addr \<Rightarrow> heap \<Rightarrow> (error + unit) \<times> heap" where
  "data_group_finalize a h =
     (case deref (groups h) a of
        None \<Rightarrow> (Inl (DanglingReference a), h)
      | Some g \<Rightarrow>
          if dg_closed g then (Inr (), h)
          else (Inr (),
                h\<lparr>groups := (groups h)[a := g\<lparr>dg_closed := True\<rparr>],
                  store := AList.update (data_group_key g) (dg_fields g) (store h)\<rparr>))"

text \<open>Whether a reference designates a DataGroup that is closed (used in the proofs).\<close>

definition is_closed :: "heap \<Rightarrow> addr \<Rightarrow> bool" where
  "is_closed h a = (case deref (groups h) a of None \<Rightarrow> False | Some g \<Rightarrow> dg_closed g)"

subsection \<open>Example objects\<close>

text \<open>
  A registry with one DataGroup type, a schema with the two DataGroups \<^verbatim>\<open>state\<close> and
  \<^verbatim>\<open>session\<close>, a heap holding the schema's evaluation context, and a Transformer over
  that schema. They are the concrete inputs at which the results below are evaluated.
\<close>

definition example_constructor :: item_constructor where
  "example_constructor s identity c =
     Inr \<lparr>dg_schema = s, dg_identity = identity, dg_evaluation_context = c,
          dg_fields = [], dg_sub_keys = [], dg_closed = False\<rparr>"

definition example_registry :: "string \<Rightarrow> item_constructor option" where
  "example_registry ty = (if ty = ''IdentityAggregate'' then Some example_constructor else None)"

definition example_loader :: schema_loader where
  "example_loader =
     \<lparr>get_nested_schema_object =
        (\<lambda>fqn k. case k of
                    SStr n \<Rightarrow> Inr \<lparr>schema_name = n, schema_type = ''MemoryStore''\<rparr>
                  | _ \<Rightarrow> Inl (TypeError ''name must be a string''))\<rparr>"

definition example_schema :: transformer_schema where
  "example_schema =
     \<lparr>fully_qualified_name = ''example'',
      schema_loader = example_loader,
      p_spec = [(''Version'', SStr ''2018-03-01'')],
      name = ''example'',
      nested_schema =
        [(''state'', \<lparr>schema_name = ''state'', schema_type = ''IdentityAggregate''\<rparr>),
         (''session'', \<lparr>schema_name = ''session'', schema_type = ''IdentityAggregate''\<rparr>)],
      version = SStr ''2018-03-01'',
      description = None,
      stores = [],
      import_list = None,
      schema_context = 0\<rparr>"

definition example_heap :: heap where
  "example_heap =
     \<lparr>contexts = [\<lparr>global_context = [], local_context = []\<rparr>], groups = [], store = []\<rparr>"

definition example_transformer :: transformer where
  "example_transformer =
     \<lparr>p_name = ''example'', p_identity = ''user-1'', p_evaluation_context = 0,
      p_data_groups = [(''state'', 0), (''session'', 1)]\<rparr>"

text \<open>
  A second Transformer over the same schema, for the identity \<^verbatim>\<open>user-2\<close>, and the heaps
  after the first and after the second construction.
\<close>

definition example_transformer2 :: transformer where
  "example_transformer2 =
     \<lparr>p_name = ''example'', p_identity = ''user-2'', p_evaluation_context = 0,
      p_data_groups = [(''state'', 2), (''session'', 3)]\<rparr>"

definition example_heap_one :: heap where
  "example_heap_one = snd (transformer_init example_registry example_schema ''user-1'' example_heap)"

definition example_heap_two :: heap where
  "example_heap_two = snd (transformer_init example_registry example_schema ''user-2'' example_heap_one)"

text \<open>
  Two stand-ins for the \<^verbatim>\<open>finalize\<close> of a DataGroup, on a state that lists the
  DataGroups finalized: one that always returns, one that raises on the DataGroup at
  address 0. And the example heap after \<^verbatim>\<open>finalize\<close> of the first Transformer.
\<close>

definition example_finalize :: "addr \<Rightarrow> addr list \<Rightarrow> (error + unit) \<times> addr list" where
  "example_finalize a w = (Inr (), w @ [a])"

definition failing_finalize :: "addr \<Rightarrow> addr list \<Rightarrow> (error + unit) \<times> addr list" where
  "failing_finalize a w = (if a = 0 then (Inl (StoreError ''unavailable''), w) else (Inr (), w @ [a]))"

definition example_heap_finalized :: heap where
  "example_heap_finalized =
     snd (snd (finalize data_group_finalize example_transformer ([], example_heap_one)))"

text \<open>
  A base constructor that returns a given attribute mapping, an importer that knows the
  modules \<^verbatim>\<open>m1\<close> and \<^verbatim>\<open>m2\<close>, and five attribute mappings: without \<^verbatim>\<open>Version\<close>, with
  \<^verbatim>\<open>Version\<close> only, with two stores of the same name, and with two import lists that
  differ in the order of their entries.
\<close>

definition example_base :: "(string, spec_value) dict \<Rightarrow> string \<Rightarrow> schema_loader \<Rightarrow> base_schema" where
  "example_base spec fqn loader =
     \<lparr>fully_qualified_name = fqn, schema_loader = loader, p_spec = spec,
      name = ''example'',
      nested_schema =
        [(''state'', \<lparr>schema_name = ''state'', schema_type = ''IdentityAggregate''\<rparr>),
         (''session'', \<lparr>schema_name = ''session'', schema_type = ''IdentityAggregate''\<rparr>)]\<rparr>"

definition example_base_init ::
  "(string, spec_value) dict \<Rightarrow> string \<Rightarrow> schema_loader \<Rightarrow> string \<Rightarrow> error + base_schema" where
  "example_base_init spec fqn loader nested_attribute = Inr (example_base spec fqn loader)"

definition example_importer :: "spec_value \<Rightarrow> error + pyvalue" where
  "example_importer module =
     (if module = SStr ''m1'' then Inr (ModuleVal ''m1'' [(''g'', ObjVal ''m1.g'')])
      else if module = SStr ''m2'' then Inr (ModuleVal ''m2'' [(''f'', ObjVal ''m2.f'')])
      else Inl (ImportError ''no such module''))"

definition spec_without_version :: "(string, spec_value) dict" where
  "spec_without_version = [(''Name'', SStr ''example''), (''Description'', SStr ''no version'')]"

definition spec_version_only :: "(string, spec_value) dict" where
  "spec_version_only = [(''Name'', SStr ''example''), (''Version'', SStr ''2018-03-01'')]"

definition spec_duplicate_stores :: "(string, spec_value) dict" where
  "spec_duplicate_stores =
     [(''Version'', SStr ''2018-03-01''),
      (''Stores'', SList [SMap [(''Name'', SStr ''memory''), (''Type'', SStr ''MemoryStore'')],
                          SMap [(''Name'', SStr ''memory''), (''Type'', SStr ''DynamoStore'')]])]"

definition spec_import_module_first :: "(string, spec_value) dict" where
  "spec_import_module_first =
     [(''Version'', SStr ''2018-03-01''),
      (''Import'', SList [SMap [(''Module'', SStr ''m1'')],
                          SMap [(''Module'', SStr ''m2''), (''Identifier'', SList [SStr ''f''])]])]"

definition spec_import_module_last :: "(string, spec_value) dict" where
  "spec_import_module_last =
     [(''Version'', SStr ''2018-03-01''),
      (''Import'', SList [SMap [(''Module'', SStr ''m2''), (''Identifier'', SList [SStr ''f''])],
                          SMap [(''Module'', SStr ''m1'')]])]"

section \<open>Properties\<close>

subsection \<open>Lookup of a DataGroup\<close>

lemma getitem_declared:
  assumes "item \<in> fst ` set (nested_items t)"
  shows "\<exists>dg. map_of (nested_items t) item = Some dg \<and> getitem item (t, h) = (Inr dg, (t, h))"
proof -
  obtain dg where "map_of (nested_items t) item = Some dg"
    using assms by (metis map_of_eq_None_iff not_Some_eq)
  then show ?thesis
    using assms by (simp add: getitem_def)
qed

lemma getitem_undeclared:
  assumes "item \<notin> fst ` set (nested_items t)"
  shows "getitem item (t, h) =
           (Inl (MissingAttributeError (item @ '' not defined in '' @ p_name t)), (t, h))"
  using assms by (simp add: getitem_def)

text \<open>
  C1. Indexed lookup \<^verbatim>\<open>Transformer[name]\<close>: when the name is a declared DataGroup of the
  Transformer, the lookup returns the DataGroup bound to that name; when it is not, the
  lookup fails with \<^verbatim>\<open>MissingAttributeError\<close>.
\<close>

theorem getitem_lookup:
  "(item \<in> fst ` set (nested_items t) \<longrightarrow>
      (\<exists>dg. map_of (nested_items t) item = Some dg \<and> fst (getitem item (t, h)) = Inr dg))
   \<and> (item \<notin> fst ` set (nested_items t) \<longrightarrow>
      fst (getitem item (t, h)) =
        Inl (MissingAttributeError (item @ '' not defined in '' @ p_name t)))"
proof (intro conjI impI)
  assume "item \<in> fst ` set (nested_items t)"
  from getitem_declared [OF this, of h]
  show "\<exists>dg. map_of (nested_items t) item = Some dg \<and> fst (getitem item (t, h)) = Inr dg"
    by auto
next
  assume "item \<notin> fst ` set (nested_items t)"
  from getitem_undeclared [OF this, of h]
  show "fst (getitem item (t, h)) =
          Inl (MissingAttributeError (item @ '' not defined in '' @ p_name t))"
    by simp
qed

theorem getitem_lookup_witness:
  "''session'' \<in> fst ` set (nested_items example_transformer)
   \<and> fst (getitem ''session'' (example_transformer, example_heap)) = Inr 1
   \<and> ''score'' \<notin> fst ` set (nested_items example_transformer)
   \<and> fst (getitem ''score'' (example_transformer, example_heap)) =
       Inl (MissingAttributeError ''score not defined in example'')"
  using getitem_lookup [of "''session''" example_transformer example_heap]
    getitem_lookup [of "''score''" example_transformer example_heap]
  by (simp add: example_transformer_def nested_items_def)

text \<open>
  C2. A lookup of an undeclared DataGroup name fails with \<^verbatim>\<open>MissingAttributeError\<close> and
  leaves the state as it was: the Transformer object (with its dictionary of declared
  DataGroups) and the heap (the state of every DataGroup, the evaluation contexts and the
  Store) after the failed lookup are those before it.
\<close>

theorem getitem_failed_lookup_unchanged:
  assumes "item \<notin> fst ` set (nested_items t)"
  shows "(\<exists>msg. fst (getitem item (t, h)) = Inl (MissingAttributeError msg))
         \<and> snd (getitem item (t, h)) = (t, h)
         \<and> p_data_groups (fst (snd (getitem item (t, h)))) = p_data_groups t
         \<and> groups (snd (snd (getitem item (t, h)))) = groups h
         \<and> contexts (snd (snd (getitem item (t, h)))) = contexts h
         \<and> store (snd (snd (getitem item (t, h)))) = store h"
  using getitem_undeclared [OF assms, of h] by simp

theorem getitem_failed_lookup_unchanged_witness:
  "''score'' \<notin> fst ` set (nested_items example_transformer)
   \<and> getitem ''score'' (example_transformer, example_heap) =
       (Inl (MissingAttributeError ''score not defined in example''),
        (example_transformer, example_heap))"
  using getitem_failed_lookup_unchanged [of "''score''" example_transformer example_heap]
  by (simp add: example_transformer_def nested_items_def getitem_def)

text \<open>
  C10. For a name that is not a regular attribute of the object, attribute access
  \<^verbatim>\<open>transformer.name\<close> gives the result of indexed access \<^verbatim>\<open>transformer[name]\<close>: the
  same DataGroup when the name is declared, and \<^verbatim>\<open>MissingAttributeError\<close> when it is
  not.
\<close>

theorem attribute_access_eq_indexed_access:
  assumes "regular item = None"
  shows "attribute_access regular item (t, h) = indexed_access item (t, h)
         \<and> (item \<in> fst ` set (nested_items t) \<longrightarrow>
              (\<exists>dg. map_of (nested_items t) item = Some dg
                 \<and> fst (attribute_access regular item (t, h)) = Inr (DataGroupAttr dg)))
         \<and> (item \<notin> fst ` set (nested_items t) \<longrightarrow>
              fst (attribute_access regular item (t, h)) =
                Inl (MissingAttributeError (item @ '' not defined in '' @ p_name t)))"
proof (intro conjI impI)
  show "attribute_access regular item (t, h) = indexed_access item (t, h)"
    using assms by (simp add: attribute_access_def indexed_access_def getattr_def)
next
  assume "item \<in> fst ` set (nested_items t)"
  from getitem_declared [OF this, of h] obtain dg
    where "map_of (nested_items t) item = Some dg" "getitem item (t, h) = (Inr dg, (t, h))"
    by blast
  then show "\<exists>dg. map_of (nested_items t) item = Some dg
                 \<and> fst (attribute_access regular item (t, h)) = Inr (DataGroupAttr dg)"
    using assms by (simp add: attribute_access_def getattr_def)
next
  assume "item \<notin> fst ` set (nested_items t)"
  from getitem_undeclared [OF this, of h]
  show "fst (attribute_access regular item (t, h)) =
          Inl (MissingAttributeError (item @ '' not defined in '' @ p_name t))"
    using assms by (simp add: attribute_access_def getattr_def)
qed

theorem attribute_access_eq_indexed_access_witness:
  "(\<lambda>n. if n = ''_identity'' then Some (StrVal ''user-1'') else None) ''score'' = None
   \<and> attribute_access (\<lambda>n. if n = ''_identity'' then Some (StrVal ''user-1'') else None)
        ''score'' (example_transformer, example_heap)
       = indexed_access ''score'' (example_transformer, example_heap)
   \<and> fst (attribute_access (\<lambda>n. if n = ''_identity'' then Some (StrVal ''user-1'') else None)
        ''score'' (example_transformer, example_heap))
       = Inl (MissingAttributeError ''score not defined in example'')
   \<and> fst (attribute_access (\<lambda>n. if n = ''_identity'' then Some (StrVal ''user-1'') else None)
        ''state'' (example_transformer, example_heap))
       = Inr (DataGroupAttr 0)"
  using attribute_access_eq_indexed_access
    [of "\<lambda>n. if n = ''_identity'' then Some (StrVal ''user-1'') else None" "''score''"
        example_transformer example_heap]
  by (simp add: example_transformer_def nested_items_def attribute_access_def
      indexed_access_def getattr_def getitem_def)

subsection \<open>Construction of a Transformer\<close>

lemma update_fresh: "k \<notin> fst ` set al \<Longrightarrow> AList.update k v al = al @ [(k, v)]"
  by (induction al) auto

lemma map_of_dict_merge: "map_of (dict_merge d other) = map_of d ++ map_of (rev other)"
  unfolding dict_merge_def
proof (induction other arbitrary: d)
  case Nil
  show ?case by simp
next
  case (Cons p other)
  obtain k v where p: "p = (k, v)" by (cases p)
  show ?case
    by (simp add: p Cons.IH update_conv' map_add_def fun_eq_iff split: option.splits)
qed

lemma dict_merge_resolves:
  assumes "distinct (map fst other)" and "(k, v) \<in> set other"
  shows "map_of (dict_merge d other) k = Some v"
proof -
  have "map_of (rev other) k = Some v"
  proof -
    have "distinct (map fst (rev other))"
      using assms(1) by (simp add: rev_map [symmetric])
    then show ?thesis
      using assms(2) by (simp add: map_of_eq_Some_iff)
  qed
  then show ?thesis by (simp add: map_of_dict_merge)
qed

lemma dict_merge_other:
  assumes "k \<notin> fst ` set other"
  shows "map_of (dict_merge d other) k = map_of d k"
proof -
  have "map_of (rev other) k = None"
    using assms by (simp add: map_of_eq_None_iff)
  then show ?thesis by (simp add: map_of_dict_merge map_add_def)
qed

lemma load_data_groups_ok:
  assumes "\<forall>s \<in> snd ` set ns. \<exists>g. construct_item registry s identity c = Inr g"
      and "distinct (map fst ns)" and "fst ` set ns \<inter> fst ` set d = {}"
  shows "load_data_groups registry identity c ns d h =
           (Inr (d @ zip (map fst ns) [length (groups h) ..< length (groups h) + length ns]),
            h\<lparr>groups := groups h @ map (\<lambda>p. projr (construct_item registry (snd p) identity c)) ns\<rparr>)"
  using assms
proof (induction ns arbitrary: d h)
  case Nil
  then show ?case by simp
next
  case (Cons p ns)
  obtain n s where p: "p = (n, s)" by (cases p)
  from Cons.prems(1) obtain g where g: "construct_item registry s identity c = Inr g"
    by (auto simp: p)
  have fresh: "n \<notin> fst ` set d" using Cons.prems(3) by (auto simp: p)
  have upd: "AList.update n (length (groups h)) d = d @ [(n, length (groups h))]"
    using fresh by (rule update_fresh)
  have disj: "fst ` set ns \<inter> fst ` set (d @ [(n, length (groups h))]) = {}"
    using Cons.prems(2,3) by (auto simp: p)
  have IH: "load_data_groups registry identity c ns (d @ [(n, length (groups h))]) (h\<lparr>groups := groups h @ [g]\<rparr>) =
     (Inr ((d @ [(n, length (groups h))]) @ zip (map fst ns) [length (groups (h\<lparr>groups := groups h @ [g]\<rparr>)) ..< length (groups (h\<lparr>groups := groups h @ [g]\<rparr>)) + length ns]),
            (h\<lparr>groups := groups h @ [g]\<rparr>)\<lparr>groups := groups (h\<lparr>groups := groups h @ [g]\<rparr>) @ map (\<lambda>p. projr (construct_item registry (snd p) identity c)) ns\<rparr>)"
    using Cons.prems(1,2) disj by (intro Cons.IH) (auto simp: p)
  have up: "[length (groups h) ..< Suc (length (groups h) + length ns)] =
      length (groups h) # [Suc (length (groups h)) ..< Suc (length (groups h) + length ns)]"
    by (rule upt_conv_Cons) simp
  show ?case
    using IH by (simp add: p g new_group_def upd up del: upt_Suc)
qed

lemma global_add_live:
  "c < length (contexts h) \<Longrightarrow>
   global_add c k v h =
     (Inr (), h\<lparr>contexts := (contexts h)[c := (contexts h ! c)\<lparr>global_context :=
                 AList.update k v (global_context (contexts h ! c))\<rparr>]\<rparr>)"
  by (simp add: global_add_def deref_def)

lemma global_merge_live:
  "c < length (contexts h) \<Longrightarrow>
   global_merge c other h =
     (Inr (), h\<lparr>contexts := (contexts h)[c := (contexts h ! c)\<lparr>global_context :=
                 dict_merge (global_context (contexts h ! c)) other\<rparr>]\<rparr>)"
  by (simp add: global_merge_def deref_def)

lemma transformer_init_ok:
  assumes live: "schema_context schema < length (contexts h)"
      and names: "distinct (map fst (nested_schema schema))"
      and ctor: "\<forall>s \<in> snd ` set (nested_schema schema).
                   \<exists>g. construct_item registry s identity (schema_context schema) = Inr g"
  defines "c \<equiv> schema_context schema"
  defines "dgs \<equiv> zip (map fst (nested_schema schema))
                     [length (groups h) ..< length (groups h) + length (nested_schema schema)]"
  shows "transformer_init registry schema identity h =
     (Inr \<lparr>p_name = name schema, p_identity = identity, p_evaluation_context = c,
           p_data_groups = dgs\<rparr>,
      h\<lparr>groups := groups h @ map (\<lambda>p. projr (construct_item registry (snd p) identity c)) (nested_schema schema),
        contexts := (contexts h)[c := (contexts h ! c)\<lparr>global_context :=
           dict_merge (AList.update ''identity'' (StrVal identity) (global_context (contexts h ! c)))
             (map (\<lambda>(n, a). (n, DataGroupRef a)) dgs)\<rparr>]\<rparr>)"
proof -
  have l: "load_data_groups registry identity c (nested_schema schema) [] h =
           (Inr dgs, h\<lparr>groups := groups h @ map (\<lambda>p. projr (construct_item registry (snd p) identity c)) (nested_schema schema)\<rparr>)"
    using load_data_groups_ok [of "nested_schema schema" registry identity c "[]" h] ctor names
    by (simp add: c_def dgs_def)
  show ?thesis
    using live
    by (simp add: transformer_init_def Let_def l c_def [symmetric] global_add_live global_merge_live nested_items_def)
qed

lemma map_fst_refs: "map fst (map (\<lambda>(n, a). (n, DataGroupRef a)) xs) = map fst xs"
  by (induction xs) auto


lemma transformer_init_result:
  assumes live: "schema_context schema < length (contexts h)"
      and names: "distinct (map fst (nested_schema schema))"
      and ctor: "\<forall>s \<in> snd ` set (nested_schema schema).
                   \<exists>g. construct_item registry s identity (schema_context schema) = Inr g"
  shows "\<exists>t h'. transformer_init registry schema identity h = (Inr t, h')
     \<and> length (contexts h') = length (contexts h)
     \<and> map snd (p_data_groups t) =
           [length (groups h) ..< length (groups h) + length (nested_schema schema)]
     \<and> length (groups h') = length (groups h) + length (nested_schema schema)
     \<and> p_identity t = identity
     \<and> p_evaluation_context t = schema_context schema
     \<and> map fst (p_data_groups t) = map fst (nested_schema schema)
     \<and> distinct (map snd (p_data_groups t))
     \<and> (\<forall>i < length (nested_schema schema).
           snd (p_data_groups t ! i) \<notin> {..< length (groups h)}
         \<and> construct_item registry (snd (nested_schema schema ! i)) identity (schema_context schema)
             = Inr (groups h' ! snd (p_data_groups t ! i)))
     \<and> global_context (contexts h' ! schema_context schema) =
         dict_merge
           (AList.update ''identity'' (StrVal identity) (global_context (contexts h ! schema_context schema)))
           (map (\<lambda>(n, a). (n, DataGroupRef a)) (p_data_groups t))
     \<and> (\<forall>n a. (n, a) \<in> set (p_data_groups t) \<longrightarrow>
           resolve_global h' (schema_context schema) n = Some (DataGroupRef a))
     \<and> (''identity'' \<notin> fst ` set (nested_schema schema) \<longrightarrow>
           resolve_global h' (schema_context schema) ''identity'' = Some (StrVal identity))"
proof -
  let ?c = "schema_context schema" and ?ns = "nested_schema schema" and ?l = "length (groups h)"
  define dgs where "dgs = zip (map fst ?ns) [?l ..< ?l + length ?ns]"
  define refs where "refs = map (\<lambda>(n, a). (n, DataGroupRef a)) dgs"
  define g0 where
    "g0 = AList.update ''identity'' (StrVal identity) (global_context (contexts h ! ?c))"
  define t where "t = \<lparr>p_name = name schema, p_identity = identity,
                        p_evaluation_context = ?c, p_data_groups = dgs\<rparr>"
  define h' where
    "h' = h\<lparr>groups := groups h @ map (\<lambda>p. projr (construct_item registry (snd p) identity ?c)) ?ns,
           contexts := (contexts h)[?c := (contexts h ! ?c)\<lparr>global_context := dict_merge g0 refs\<rparr>]\<rparr>"
  have dg: "p_data_groups t = dgs" by (simp add: t_def)
  have f1: "transformer_init registry schema identity h = (Inr t, h')"
    unfolding t_def h'_def dgs_def refs_def g0_def by (rule transformer_init_ok [OF assms])
  have f2: "p_identity t = identity" by (simp add: t_def)
  have f3: "p_evaluation_context t = ?c" by (simp add: t_def)
  have keys: "map fst dgs = map fst ?ns" by (simp add: dgs_def)
  have vals: "map snd dgs = [?l ..< ?l + length ?ns]" by (simp add: dgs_def)
  have f4: "map fst (p_data_groups t) = map fst ?ns" by (simp only: dg keys)
  have f5: "distinct (map snd (p_data_groups t))" by (simp only: dg vals distinct_upt)
  have ctx: "contexts h' ! ?c = (contexts h ! ?c)\<lparr>global_context := dict_merge g0 refs\<rparr>"
    using live by (simp add: h'_def)
  have len: "?c < length (contexts h')" using live by (simp add: h'_def)
  have f7: "global_context (contexts h' ! ?c) =
      dict_merge (AList.update ''identity'' (StrVal identity) (global_context (contexts h ! ?c)))
        (map (\<lambda>(n, a). (n, DataGroupRef a)) (p_data_groups t))"
    by (simp add: ctx dg g0_def refs_def)
  have rg: "resolve_global h' ?c k = map_of (dict_merge g0 refs) k" for k
    using len by (simp add: resolve_global_def deref_def ctx)
  have refs_keys: "map fst refs = map fst ?ns"
    unfolding refs_def keys [symmetric] by (rule map_fst_refs)
  have dist_refs: "distinct (map fst refs)"
    using names by (simp only: refs_keys)
  have f8: "\<forall>n a. (n, a) \<in> set (p_data_groups t) \<longrightarrow>
              resolve_global h' ?c n = Some (DataGroupRef a)"
  proof (intro allI impI)
    fix n a assume "(n, a) \<in> set (p_data_groups t)"
    then have "(n, a) \<in> set dgs" by (simp only: dg)
    then have "(n, DataGroupRef a) \<in> (\<lambda>(n, a). (n, DataGroupRef a)) ` set dgs"
      by (rule rev_image_eqI) simp
    then have "(n, DataGroupRef a) \<in> set refs" by (simp add: refs_def)
    with dist_refs have "map_of (dict_merge g0 refs) n = Some (DataGroupRef a)"
      by (rule dict_merge_resolves)
    then show "resolve_global h' ?c n = Some (DataGroupRef a)" by (simp only: rg)
  qed
  have f9: "''identity'' \<notin> fst ` set ?ns \<longrightarrow>
              resolve_global h' ?c ''identity'' = Some (StrVal identity)"
  proof
    assume "''identity'' \<notin> fst ` set ?ns"
    moreover have "fst ` set refs = fst ` set ?ns"
      using arg_cong [OF refs_keys, of set] by simp
    ultimately have "''identity'' \<notin> fst ` set refs" by simp
    then have "map_of (dict_merge g0 refs) ''identity'' = map_of g0 ''identity''"
      by (rule dict_merge_other)
    also have "\<dots> = Some (StrVal identity)" by (simp add: g0_def update_conv')
    finally show "resolve_global h' ?c ''identity'' = Some (StrVal identity)" by (simp only: rg)
  qed
  have f6: "\<forall>i < length ?ns.
       snd (p_data_groups t ! i) \<notin> {..< ?l}
     \<and> construct_item registry (snd (?ns ! i)) identity ?c = Inr (groups h' ! snd (p_data_groups t ! i))"
  proof (intro allI impI)
    fix i assume i: "i < length ?ns"
    have a: "snd (dgs ! i) = ?l + i" using i by (simp add: dgs_def)
    have "snd (?ns ! i) \<in> snd ` set ?ns" using i by (simp only: nth_mem imageI)
    with ctor obtain g where g: "construct_item registry (snd (?ns ! i)) identity ?c = Inr g"
      by blast
    have "groups h' ! (?l + i) = projr (construct_item registry (snd (?ns ! i)) identity ?c)"
      using i by (simp add: h'_def nth_append)
    then have "groups h' ! (?l + i) = g" by (simp add: g)
    then show "snd (p_data_groups t ! i) \<notin> {..< ?l}
     \<and> construct_item registry (snd (?ns ! i)) identity ?c = Inr (groups h' ! snd (p_data_groups t ! i))"
      by (simp add: dg a g)
  qed
  have e1: "length (contexts h') = length (contexts h)" by (simp add: h'_def)
  have e2: "map snd (p_data_groups t) = [?l ..< ?l + length ?ns]" by (simp only: dg vals)
  have e3: "length (groups h') = ?l + length ?ns" by (simp add: h'_def)
  from f1 e1 e2 e3 f2 f3 f4 f5 f6 f7 f8 f9 show ?thesis by blast
qed


text \<open>
  C5. Constructing a Transformer from a schema and an identity string builds exactly one
  DataGroup per nested schema entry, under the entry's name and in declaration order,
  each constructed through the type registry from the entry's declared type and placed
  at a fresh address; it binds \<^verbatim>\<open>identity\<close> to the identity string in the shared
  global scope and then merges the name-to-DataGroup mapping into that scope, so that
  every declared name resolves to its DataGroup after construction. (The binding of
  \<^verbatim>\<open>identity\<close> survives the merge unless a DataGroup itself is named \<^verbatim>\<open>identity\<close>.)
  The hypotheses are those under which no step raises: the schema's evaluation context is
  a live object, the nested names are the keys of a dictionary, and the registry resolves
  the declared type of each entry to a constructor that returns.
\<close>

theorem transformer_init_builds_data_groups:
  assumes live: "schema_context schema < length (contexts h)"
      and names: "distinct (map fst (nested_schema schema))"
      and ctor: "\<forall>s \<in> snd ` set (nested_schema schema).
                   \<exists>g. construct_item registry s identity (schema_context schema) = Inr g"
  shows "\<exists>t h'. transformer_init registry schema identity h = (Inr t, h')
     \<and> p_identity t = identity
     \<and> p_evaluation_context t = schema_context schema
     \<and> map fst (p_data_groups t) = map fst (nested_schema schema)
     \<and> distinct (map snd (p_data_groups t))
     \<and> (\<forall>i < length (nested_schema schema).
           snd (p_data_groups t ! i) \<notin> {..< length (groups h)}
         \<and> construct_item registry (snd (nested_schema schema ! i)) identity (schema_context schema)
             = Inr (groups h' ! snd (p_data_groups t ! i)))
     \<and> global_context (contexts h' ! schema_context schema) =
         dict_merge
           (AList.update ''identity'' (StrVal identity) (global_context (contexts h ! schema_context schema)))
           (map (\<lambda>(n, a). (n, DataGroupRef a)) (p_data_groups t))
     \<and> (\<forall>n a. (n, a) \<in> set (p_data_groups t) \<longrightarrow>
           resolve_global h' (schema_context schema) n = Some (DataGroupRef a))
     \<and> (''identity'' \<notin> fst ` set (nested_schema schema) \<longrightarrow>
           resolve_global h' (schema_context schema) ''identity'' = Some (StrVal identity))"
  using transformer_init_result [OF assms] by blast

theorem transformer_init_builds_data_groups_witness:
  "schema_context example_schema < length (contexts example_heap)
   \<and> distinct (map fst (nested_schema example_schema))
   \<and> map (\<lambda>p. isl (construct_item example_registry (snd p) ''user-1''
                        (schema_context example_schema)))
         (nested_schema example_schema) = [False, False]
   \<and> transformer_init example_registry example_schema ''user-1'' example_heap =
     (Inr \<lparr>p_name = ''example'', p_identity = ''user-1'', p_evaluation_context = 0,
           p_data_groups = [(''state'', 0), (''session'', 1)]\<rparr>,
      \<lparr>contexts = [\<lparr>global_context = [(''identity'', StrVal ''user-1''), (''state'', DataGroupRef 0),
                                     (''session'', DataGroupRef 1)],
                   local_context = []\<rparr>],
       groups = [\<lparr>dg_schema = \<lparr>schema_name = ''state'', schema_type = ''IdentityAggregate''\<rparr>,
                  dg_identity = ''user-1'', dg_evaluation_context = 0, dg_fields = [],
                  dg_sub_keys = [], dg_closed = False\<rparr>,
                 \<lparr>dg_schema = \<lparr>schema_name = ''session'', schema_type = ''IdentityAggregate''\<rparr>,
                  dg_identity = ''user-1'', dg_evaluation_context = 0, dg_fields = [],
                  dg_sub_keys = [], dg_closed = False\<rparr>],
       store = []\<rparr>)
   \<and> resolve_global (snd (transformer_init example_registry example_schema ''user-1'' example_heap)) 0 ''session''
       = Some (DataGroupRef 1)"
  using transformer_init_builds_data_groups [of example_schema example_heap example_registry "''user-1''"]
  by (simp add: example_schema_def example_heap_def example_registry_def example_constructor_def
      transformer_init_def construct_item_def load_item_def new_group_def global_add_def
      global_merge_def dict_merge_def deref_def nested_items_def resolve_global_def Let_def)

subsection \<open>Two Transformers over one schema\<close>

lemma example_init_one:
  "transformer_init example_registry example_schema ''user-1'' example_heap =
     (Inr example_transformer,
      \<lparr>contexts = [\<lparr>global_context = [(''identity'', StrVal ''user-1''), (''state'', DataGroupRef 0),
                                     (''session'', DataGroupRef 1)],
                   local_context = []\<rparr>],
       groups = [\<lparr>dg_schema = \<lparr>schema_name = ''state'', schema_type = ''IdentityAggregate''\<rparr>,
                  dg_identity = ''user-1'', dg_evaluation_context = 0, dg_fields = [],
                  dg_sub_keys = [], dg_closed = False\<rparr>,
                 \<lparr>dg_schema = \<lparr>schema_name = ''session'', schema_type = ''IdentityAggregate''\<rparr>,
                  dg_identity = ''user-1'', dg_evaluation_context = 0, dg_fields = [],
                  dg_sub_keys = [], dg_closed = False\<rparr>],
       store = []\<rparr>)"
  by (simp add: example_schema_def example_heap_def example_registry_def example_constructor_def
      example_transformer_def
      transformer_init_def construct_item_def load_item_def new_group_def global_add_def
      global_merge_def dict_merge_def deref_def nested_items_def Let_def)

lemma example_init_two:
  "transformer_init example_registry example_schema ''user-2'' example_heap_one =
     (Inr example_transformer2,
      \<lparr>contexts = [\<lparr>global_context = [(''identity'', StrVal ''user-2''), (''state'', DataGroupRef 2),
                                     (''session'', DataGroupRef 3)],
                   local_context = []\<rparr>],
       groups = [\<lparr>dg_schema = \<lparr>schema_name = ''state'', schema_type = ''IdentityAggregate''\<rparr>,
                  dg_identity = ''user-1'', dg_evaluation_context = 0, dg_fields = [],
                  dg_sub_keys = [], dg_closed = False\<rparr>,
                 \<lparr>dg_schema = \<lparr>schema_name = ''session'', schema_type = ''IdentityAggregate''\<rparr>,
                  dg_identity = ''user-1'', dg_evaluation_context = 0, dg_fields = [],
                  dg_sub_keys = [], dg_closed = False\<rparr>,
                 \<lparr>dg_schema = \<lparr>schema_name = ''state'', schema_type = ''IdentityAggregate''\<rparr>,
                  dg_identity = ''user-2'', dg_evaluation_context = 0, dg_fields = [],
                  dg_sub_keys = [], dg_closed = False\<rparr>,
                 \<lparr>dg_schema = \<lparr>schema_name = ''session'', schema_type = ''IdentityAggregate''\<rparr>,
                  dg_identity = ''user-2'', dg_evaluation_context = 0, dg_fields = [],
                  dg_sub_keys = [], dg_closed = False\<rparr>],
       store = []\<rparr>)"
  by (simp add: example_heap_one_def example_init_one)
     (simp add: example_schema_def example_registry_def example_constructor_def
      example_transformer2_def
      transformer_init_def construct_item_def load_item_def new_group_def global_add_def
      global_merge_def dict_merge_def deref_def nested_items_def Let_def)

text \<open>
  C4, as stated, fails. The claim: two Transformers constructed from the same schema with
  distinct identities each own their root scope, so that resolving \<^verbatim>\<open>identity\<close> through
  the first one's evaluation context still yields the first identity, and neither one's
  DataGroups are resolvable through the other's root scope. At the example schema, after
  constructing a Transformer for \<^verbatim>\<open>user-1\<close> and then one for \<^verbatim>\<open>user-2\<close>, the first
  Transformer's evaluation context resolves \<^verbatim>\<open>identity\<close> to \<^verbatim>\<open>user-2\<close>, and resolves
  \<^verbatim>\<open>session\<close> to the DataGroup of the second Transformer (address 3), not to its own
  (address 1).
\<close>

theorem transformer_root_scope_counterexample:
  "fst (transformer_init example_registry example_schema ''user-1'' example_heap)
     = Inr example_transformer
   \<and> fst (transformer_init example_registry example_schema ''user-2'' example_heap_one)
     = Inr example_transformer2
   \<and> p_identity example_transformer = ''user-1''
   \<and> resolve example_heap_two (p_evaluation_context example_transformer) ''identity''
     = Some (StrVal ''user-2'')
   \<and> resolve example_heap_two (p_evaluation_context example_transformer) ''identity''
     \<noteq> Some (StrVal (p_identity example_transformer))
   \<and> map_of (p_data_groups example_transformer2) ''session'' = Some 3
   \<and> map_of (p_data_groups example_transformer) ''session'' = Some 1
   \<and> resolve example_heap_two (p_evaluation_context example_transformer) ''session''
     = Some (DataGroupRef 3)"
  by (simp add: example_heap_two_def example_init_two example_init_one)
     (simp add: example_transformer_def example_transformer2_def resolve_def deref_def)

text \<open>
  C4, amended. Two Transformers constructed one after the other from the same schema
  share the schema's evaluation context \<^verbatim>\<open>schema.schema_context\<close> as their root scope:
  both hold a reference to that one object. Each owns its DataGroups (the two sets of
  DataGroup objects are disjoint, under the same names), but after both constructions the
  shared root scope resolves \<^verbatim>\<open>identity\<close> to the identity of the Transformer constructed
  last (no DataGroup being named \<^verbatim>\<open>identity\<close>) and every declared name to the DataGroup
  of the Transformer constructed last.
\<close>

theorem transformer_init_shares_schema_context:
  assumes live: "schema_context schema < length (contexts h)"
      and names: "distinct (map fst (nested_schema schema))"
      and ctor1: "\<forall>s \<in> snd ` set (nested_schema schema).
                   \<exists>g. construct_item registry s identity1 (schema_context schema) = Inr g"
      and ctor2: "\<forall>s \<in> snd ` set (nested_schema schema).
                   \<exists>g. construct_item registry s identity2 (schema_context schema) = Inr g"
  shows "\<exists>t1 h1 t2 h2.
       transformer_init registry schema identity1 h = (Inr t1, h1)
     \<and> transformer_init registry schema identity2 h1 = (Inr t2, h2)
     \<and> p_evaluation_context t1 = schema_context schema
     \<and> p_evaluation_context t2 = schema_context schema
     \<and> (''identity'' \<notin> fst ` set (nested_schema schema) \<longrightarrow>
           resolve_global h2 (p_evaluation_context t1) ''identity'' = Some (StrVal identity2))
     \<and> (\<forall>n a. (n, a) \<in> set (p_data_groups t2) \<longrightarrow>
           resolve_global h2 (p_evaluation_context t1) n = Some (DataGroupRef a))
     \<and> map fst (p_data_groups t1) = map fst (p_data_groups t2)
     \<and> set (map snd (p_data_groups t1)) \<inter> set (map snd (p_data_groups t2)) = {}"
proof -
  from transformer_init_result [OF live names ctor1] obtain t1 h1 where
    i1: "transformer_init registry schema identity1 h = (Inr t1, h1)"
    and c1: "length (contexts h1) = length (contexts h)"
    and a1: "map snd (p_data_groups t1) =
           [length (groups h) ..< length (groups h) + length (nested_schema schema)]"
    and g1: "length (groups h1) = length (groups h) + length (nested_schema schema)"
    and e1: "p_evaluation_context t1 = schema_context schema"
    and k1: "map fst (p_data_groups t1) = map fst (nested_schema schema)"
    by blast
  have live1: "schema_context schema < length (contexts h1)"
    using live by (simp only: c1)
  from transformer_init_result [OF live1 names ctor2] obtain t2 h2 where
    i2: "transformer_init registry schema identity2 h1 = (Inr t2, h2)"
    and a2: "map snd (p_data_groups t2) =
           [length (groups h1) ..< length (groups h1) + length (nested_schema schema)]"
    and e2: "p_evaluation_context t2 = schema_context schema"
    and k2: "map fst (p_data_groups t2) = map fst (nested_schema schema)"
    and r2: "\<forall>n a. (n, a) \<in> set (p_data_groups t2) \<longrightarrow>
           resolve_global h2 (schema_context schema) n = Some (DataGroupRef a)"
    and id2: "''identity'' \<notin> fst ` set (nested_schema schema) \<longrightarrow>
           resolve_global h2 (schema_context schema) ''identity'' = Some (StrVal identity2)"
    by blast
  have disj: "set (map snd (p_data_groups t1)) \<inter> set (map snd (p_data_groups t2)) = {}"
    by (simp only: a1 a2 g1) auto
  have keys: "map fst (p_data_groups t1) = map fst (p_data_groups t2)"
    by (simp only: k1 k2)
  have r2': "\<forall>n a. (n, a) \<in> set (p_data_groups t2) \<longrightarrow>
           resolve_global h2 (p_evaluation_context t1) n = Some (DataGroupRef a)"
    using r2 by (simp only: e1)
  have id2': "''identity'' \<notin> fst ` set (nested_schema schema) \<longrightarrow>
           resolve_global h2 (p_evaluation_context t1) ''identity'' = Some (StrVal identity2)"
    using id2 by (simp only: e1)
  show ?thesis
    by (rule exI [of _ t1], rule exI [of _ h1], rule exI [of _ t2], rule exI [of _ h2])
       (intro conjI i1 i2 e1 e2 id2' r2' keys disj)
qed

theorem transformer_init_shares_schema_context_witness:
  "schema_context example_schema < length (contexts example_heap)
   \<and> distinct (map fst (nested_schema example_schema))
   \<and> transformer_init example_registry example_schema ''user-1'' example_heap
       = (Inr example_transformer, example_heap_one)
   \<and> transformer_init example_registry example_schema ''user-2'' example_heap_one
       = (Inr example_transformer2, example_heap_two)
   \<and> resolve_global example_heap_two (p_evaluation_context example_transformer) ''identity''
       = Some (StrVal ''user-2'')
   \<and> resolve_global example_heap_two (p_evaluation_context example_transformer) ''state''
       = Some (DataGroupRef 2)"
proof -
  have live: "schema_context example_schema < length (contexts example_heap)"
    by (simp add: example_schema_def example_heap_def)
  have names: "distinct (map fst (nested_schema example_schema))"
    by (simp add: example_schema_def)
  have ctor: "\<forall>s \<in> snd ` set (nested_schema example_schema).
      \<exists>g. construct_item example_registry s identity (schema_context example_schema) = Inr g"
    for identity
    by (simp add: example_schema_def construct_item_def load_item_def example_registry_def
        example_constructor_def)
  have one: "transformer_init example_registry example_schema ''user-1'' example_heap
       = (Inr example_transformer, example_heap_one)"
    by (simp add: example_heap_one_def example_init_one)
  have two: "transformer_init example_registry example_schema ''user-2'' example_heap_one
       = (Inr example_transformer2, example_heap_two)"
    by (simp add: example_heap_two_def example_init_two)
  have no_id: "''identity'' \<notin> fst ` set (nested_schema example_schema)"
    by (simp add: example_schema_def)
  have st: "(''state'', 2) \<in> set (p_data_groups example_transformer2)"
    by (simp add: example_transformer2_def)
  from transformer_init_shares_schema_context [OF live names ctor ctor, of "''user-1''" "''user-2''"]
  obtain t1 h1 t2 h2 where
    a: "transformer_init example_registry example_schema ''user-1'' example_heap = (Inr t1, h1)"
    and b: "transformer_init example_registry example_schema ''user-2'' h1 = (Inr t2, h2)"
    and i: "''identity'' \<notin> fst ` set (nested_schema example_schema) \<longrightarrow>
           resolve_global h2 (p_evaluation_context t1) ''identity'' = Some (StrVal ''user-2'')"
    and r: "\<forall>n a. (n, a) \<in> set (p_data_groups t2) \<longrightarrow>
           resolve_global h2 (p_evaluation_context t1) n = Some (DataGroupRef a)"
    by blast
  from a one have t1: "t1 = example_transformer" and h1: "h1 = example_heap_one"
    by simp_all
  from b two h1 have t2: "t2 = example_transformer2" and h2: "h2 = example_heap_two"
    by simp_all
  from i no_id r st
  have "resolve_global example_heap_two (p_evaluation_context example_transformer) ''identity''
          = Some (StrVal ''user-2'')
        \<and> resolve_global example_heap_two (p_evaluation_context example_transformer) ''state''
          = Some (DataGroupRef 2)"
    unfolding t1 t2 h2 by blast
  with live names one two show ?thesis by simp
qed

subsection \<open>finalize: the loop over the DataGroups\<close>

lemma finalize_items_prefix:
  "\<exists>n \<le> length items. fst (snd (finalize_items fin items (calls, w))) = calls @ take n items"
proof (induction items arbitrary: calls w)
  case Nil
  show ?case by simp
next
  case (Cons item items)
  obtain r w' where f: "fin item w = (r, w')" by (cases "fin item w")
  show ?case
  proof (cases r)
    case (Inl e)
    have "fst (snd (finalize_items fin (item # items) (calls, w))) = calls @ take 1 (item # items)"
      by (simp add: f Inl)
    then show ?thesis by (intro exI [of _ 1]) simp
  next
    case (Inr u)
    from Cons.IH [of "calls @ [item]" w'] obtain n where
      n: "n \<le> length items"
      "fst (snd (finalize_items fin items (calls @ [item], w'))) = (calls @ [item]) @ take n items"
      by blast
    have "fst (snd (finalize_items fin (item # items) (calls, w))) = calls @ take (Suc n) (item # items)"
      using n(2) by (simp add: f Inr)
    with n(1) show ?thesis by (intro exI [of _ "Suc n"]) simp
  qed
qed

lemma finalize_items_returns:
  "fst (finalize_items fin items (calls, w)) = Inr u \<Longrightarrow>
   fst (snd (finalize_items fin items (calls, w))) = calls @ items"
proof (induction items arbitrary: calls w)
  case Nil
  show ?case by simp
next
  case (Cons item items)
  obtain r w' where f: "fin item w = (r, w')" by (cases "fin item w")
  show ?case
  proof (cases r)
    case (Inl e)
    with Cons.prems f show ?thesis by simp
  next
    case (Inr u')
    with Cons.prems f have "fst (finalize_items fin items (calls @ [item], w')) = Inr u" by simp
    from Cons.IH [OF this] show ?thesis by (simp add: f Inr)
  qed
qed

lemma finalize_items_no_raise:
  "\<forall>a \<in> set items. \<forall>w. fst (fin a w) = Inr () \<Longrightarrow>
   fst (finalize_items fin items (calls, w)) = Inr ()"
proof (induction items arbitrary: calls w)
  case Nil
  show ?case by simp
next
  case (Cons item items)
  obtain r w' where f: "fin item w = (r, w')" by (cases "fin item w")
  from Cons.prems have "fst (fin item w) = Inr ()" by simp
  with f have r: "r = Inr ()" by simp
  from Cons.prems have "\<forall>a \<in> set items. \<forall>w. fst (fin a w) = Inr ()" by simp
  from Cons.IH [OF this] show ?case by (simp add: f r)
qed

text \<open>The dictionary of DataGroups of a Transformer that was constructed.\<close>

lemma load_data_groups_inv:
  assumes "load_data_groups registry identity c ns d h = (Inr d', h')"
      and "distinct (map fst ns)" and "fst ` set ns \<inter> fst ` set d = {}"
  shows "d' = d @ zip (map fst ns) [length (groups h) ..< length (groups h) + length ns]"
  using assms
proof (induction ns arbitrary: d h)
  case Nil
  then show ?case by simp
next
  case (Cons p ns)
  obtain n s where p: "p = (n, s)" by (cases p)
  show ?case
  proof (cases "construct_item registry s identity c")
    case (Inl e)
    with Cons.prems(1) show ?thesis by (simp add: p)
  next
    case (Inr g)
    have fresh: "n \<notin> fst ` set d" using Cons.prems(3) by (auto simp: p)
    have upd: "AList.update n (length (groups h)) d = d @ [(n, length (groups h))]"
      using fresh by (rule update_fresh)
    have rec: "load_data_groups registry identity c ns (d @ [(n, length (groups h))])
                 (h\<lparr>groups := groups h @ [g]\<rparr>) = (Inr d', h')"
      using Cons.prems(1) by (simp add: p Inr new_group_def upd)
    have disj: "fst ` set ns \<inter> fst ` set (d @ [(n, length (groups h))]) = {}"
      using Cons.prems(2,3) by (auto simp: p)
    have dist: "distinct (map fst ns)" using Cons.prems(2) by simp
    have up: "[length (groups h) ..< Suc (length (groups h) + length ns)] =
        length (groups h) # [Suc (length (groups h)) ..< Suc (length (groups h) + length ns)]"
      by (rule upt_conv_Cons) simp
    from Cons.IH [OF rec dist disj] show ?thesis
      by (simp add: p up del: upt_Suc)
  qed
qed

lemma transformer_init_inv:
  assumes "transformer_init registry schema identity h = (Inr t, h')"
      and "distinct (map fst (nested_schema schema))"
  shows "p_data_groups t = zip (map fst (nested_schema schema))
           [length (groups h) ..< length (groups h) + length (nested_schema schema)]"
proof -
  obtain r h1 where l: "load_data_groups registry identity (schema_context schema)
      (nested_schema schema) [] h = (r, h1)"
    by (cases "load_data_groups registry identity (schema_context schema) (nested_schema schema) [] h")
  show ?thesis
  proof (cases r)
    case (Inl e)
    with assms(1) l show ?thesis by (simp add: transformer_init_def)
  next
    case (Inr dgs)
    from load_data_groups_inv [OF l [unfolded Inr] assms(2)]
    have d: "dgs = zip (map fst (nested_schema schema))
           [length (groups h) ..< length (groups h) + length (nested_schema schema)]"
      by simp
    from assms(1) have "p_data_groups t = dgs"
      by (auto simp: transformer_init_def l Inr Let_def split: prod.splits sum.splits)
    with d show ?thesis by simp
  qed
qed

text \<open>
  C6. For a Transformer constructed from a schema, \<^verbatim>\<open>finalize()\<close> invokes \<^verbatim>\<open>finalize\<close>
  on the DataGroups in the declaration order of the schema's nested entries: the
  DataGroups are held under the nested names in declaration order and are pairwise
  distinct objects, the list of invocations is always an initial segment of them, and when
  the \<^verbatim>\<open>finalize\<close> of no DataGroup raises, \<^verbatim>\<open>finalize()\<close> returns after invoking it on
  every DataGroup exactly once. (An exception raised by a DataGroup leaves the loop.)
\<close>

theorem finalize_invokes_each_data_group_in_order:
  assumes init: "transformer_init registry schema identity h = (Inr t, h')"
      and names: "distinct (map fst (nested_schema schema))"
  shows "map fst (nested_items t) = map fst (nested_schema schema)
       \<and> distinct (map snd (nested_items t))
       \<and> (\<exists>n \<le> length (nested_items t).
             fst (snd (finalize fin t ([], w))) = take n (map snd (nested_items t)))
       \<and> ((\<forall>a \<in> set (map snd (nested_items t)). \<forall>w. fst (fin a w) = Inr ()) \<longrightarrow>
             fst (finalize fin t ([], w)) = Inr ()
           \<and> fst (snd (finalize fin t ([], w))) = map snd (nested_items t))"
proof -
  let ?items = "map snd (nested_items t)"
  have dg: "nested_items t = zip (map fst (nested_schema schema))
           [length (groups h) ..< length (groups h) + length (nested_schema schema)]"
    using transformer_init_inv [OF init names] by (simp add: nested_items_def)
  have k: "map fst (nested_items t) = map fst (nested_schema schema)"
    by (simp add: dg)
  have v: "distinct ?items" by (simp add: dg)
  from finalize_items_prefix [of ?items fin "[]" w]
  have p: "\<exists>n \<le> length (nested_items t).
             fst (snd (finalize fin t ([], w))) = take n ?items"
    by (simp add: finalize_def)
  have a: "fst (finalize fin t ([], w)) = Inr ()
           \<and> fst (snd (finalize fin t ([], w))) = ?items"
    if nr: "\<forall>a \<in> set ?items. \<forall>w. fst (fin a w) = Inr ()"
  proof -
    have r: "fst (finalize_items fin ?items ([], w)) = Inr ()"
      using nr by (rule finalize_items_no_raise)
    from finalize_items_returns [OF r] r show ?thesis by (simp add: finalize_def)
  qed
  from k v p a show ?thesis by blast
qed


theorem finalize_invokes_each_data_group_in_order_witness:
  "transformer_init example_registry example_schema ''user-1'' example_heap
     = (Inr example_transformer, example_heap_one)
   \<and> distinct (map fst (nested_schema example_schema))
   \<and> map fst (nested_schema example_schema) = [''state'', ''session'']
   \<and> nested_items example_transformer = [(''state'', 0), (''session'', 1)]
   \<and> finalize example_finalize example_transformer ([], []) = (Inr (), ([0, 1], [0, 1]))"
proof -
  have one: "transformer_init example_registry example_schema ''user-1'' example_heap
       = (Inr example_transformer, example_heap_one)"
    by (simp add: example_heap_one_def example_init_one)
  have names: "distinct (map fst (nested_schema example_schema))"
    by (simp add: example_schema_def)
  have items: "nested_items example_transformer = [(''state'', 0), (''session'', 1)]"
    by (simp add: nested_items_def example_transformer_def)
  have nr: "\<forall>a \<in> set (map snd (nested_items example_transformer)).
              \<forall>w. fst (example_finalize a w) = Inr ()"
    by (simp add: example_finalize_def)
  from finalize_invokes_each_data_group_in_order [OF one names, of example_finalize "[]"] nr
  have "fst (finalize example_finalize example_transformer ([], [])) = Inr ()"
    and "fst (snd (finalize example_finalize example_transformer ([], []))) = [0, 1]"
    by (simp_all add: items)
  moreover have "snd (snd (finalize example_finalize example_transformer ([], []))) = [0, 1]"
    by (simp add: finalize_def items example_finalize_def)
  ultimately have "finalize example_finalize example_transformer ([], []) = (Inr (), ([0, 1], [0, 1]))"
    by (metis prod.collapse)
  with one names items show ?thesis by (simp add: example_schema_def)
qed

text \<open>The loop is left at the first DataGroup whose \<^verbatim>\<open>finalize\<close> raises.\<close>

lemma finalize_stops_at_exception:
  "finalize failing_finalize example_transformer ([], []) =
     (Inl (StoreError ''unavailable''), ([0], []))"
  by (simp add: finalize_def nested_items_def example_transformer_def failing_finalize_def)

subsection \<open>finalize: a second call\<close>

lemma data_group_finalize_closed:
  "is_closed h a \<Longrightarrow> data_group_finalize a h = (Inr (), h)"
  by (simp add: is_closed_def data_group_finalize_def split: option.splits)

lemma data_group_finalize_closes:
  "deref (groups h) a = Some g \<Longrightarrow> is_closed (snd (data_group_finalize a h)) a"
  by (simp add: is_closed_def data_group_finalize_def deref_def split: if_splits)

lemma data_group_finalize_keeps_closed:
  "is_closed h b \<Longrightarrow> is_closed (snd (data_group_finalize a h)) b"
  by (cases "a = b")
     (auto simp: is_closed_def data_group_finalize_def deref_def split: option.splits if_splits)

lemma finalize_items_keeps_closed:
  "is_closed h b \<Longrightarrow>
   is_closed (snd (snd (finalize_items data_group_finalize items (calls, h)))) b"
proof (induction items arbitrary: calls h)
  case Nil
  then show ?case by simp
next
  case (Cons item items)
  obtain r h1 where f: "data_group_finalize item h = (r, h1)"
    by (cases "data_group_finalize item h")
  have c: "is_closed h1 b"
    using data_group_finalize_keeps_closed [OF Cons.prems, of item] by (simp add: f)
  show ?case
  proof (cases r)
    case (Inl e)
    with c show ?thesis by (simp add: f)
  next
    case (Inr u)
    from Cons.IH [OF c] show ?thesis by (simp add: f Inr)
  qed
qed

lemma finalize_items_twice:
  "finalize_items data_group_finalize items
     (calls2, snd (snd (finalize_items data_group_finalize items (calls1, h)))) =
   (fst (finalize_items data_group_finalize items (calls1, h)),
    (calls2 @ drop (length calls1) (fst (snd (finalize_items data_group_finalize items (calls1, h)))),
     snd (snd (finalize_items data_group_finalize items (calls1, h)))))"
proof (induction items arbitrary: calls1 calls2 h)
  case Nil
  show ?case by simp
next
  case (Cons a items)
  show ?case
  proof (cases "deref (groups h) a")
    case None
    then have "data_group_finalize a h = (Inl (DanglingReference a), h)"
      by (simp add: data_group_finalize_def)
    then show ?thesis by simp
  next
    case (Some g)
    have "fst (data_group_finalize a h) = Inr ()"
      using Some by (simp add: data_group_finalize_def)
    then obtain h1 where f: "data_group_finalize a h = (Inr (), h1)"
      by (cases "data_group_finalize a h") simp
    have c1: "is_closed h1 a"
      using data_group_finalize_closes [OF Some] by (simp add: f)
    let ?h2 = "snd (snd (finalize_items data_group_finalize items (calls1 @ [a], h1)))"
    have c2: "is_closed ?h2 a"
      using c1 by (rule finalize_items_keeps_closed)
    have n: "data_group_finalize a ?h2 = (Inr (), ?h2)"
      using c2 by (rule data_group_finalize_closed)
    obtain n' where pre: "fst (snd (finalize_items data_group_finalize items (calls1 @ [a], h1)))
        = (calls1 @ [a]) @ take n' items"
      using finalize_items_prefix [of items data_group_finalize "calls1 @ [a]" h1] by blast
    show ?thesis
      using Cons.IH [of "calls2 @ [a]" "calls1 @ [a]" h1]
      by (simp add: f n pre)
  qed
qed

text \<open>
  C7. \<^verbatim>\<open>Transformer.finalize()\<close> is idempotent: from every state, a second call right
  after the first returns as the first did and leaves the heap of the first call as it
  is; the persisted Store snapshots and the DataGroup states are the same as after one
  call. The \<^verbatim>\<open>finalize\<close> of a DataGroup is the one described by the specification
  (persist the snapshot and mark closed; a no-op once closed).
\<close>

theorem finalize_idempotent:
  "fst (finalize data_group_finalize t
          (calls2, snd (snd (finalize data_group_finalize t (calls1, h)))))
     = fst (finalize data_group_finalize t (calls1, h))
   \<and> snd (snd (finalize data_group_finalize t
          (calls2, snd (snd (finalize data_group_finalize t (calls1, h))))))
     = snd (snd (finalize data_group_finalize t (calls1, h)))
   \<and> store (snd (snd (finalize data_group_finalize t
          (calls2, snd (snd (finalize data_group_finalize t (calls1, h)))))))
     = store (snd (snd (finalize data_group_finalize t (calls1, h))))
   \<and> groups (snd (snd (finalize data_group_finalize t
          (calls2, snd (snd (finalize data_group_finalize t (calls1, h)))))))
     = groups (snd (snd (finalize data_group_finalize t (calls1, h))))"
  unfolding finalize_def
  by (simp add: finalize_items_twice [of "map snd (nested_items t)" calls2 calls1 h])


theorem finalize_idempotent_witness:
  "finalize data_group_finalize example_transformer ([], example_heap_one)
     = (Inr (), ([0, 1], example_heap_finalized))
   \<and> map fst (store example_heap_finalized)
     = [\<lparr>key_type = DIMENSION, key_identity = ''user-1'', key_group_name = ''state'',
          key_sub_keys = []\<rparr>,
        \<lparr>key_type = DIMENSION, key_identity = ''user-1'', key_group_name = ''session'',
          key_sub_keys = []\<rparr>]
   \<and> map dg_closed (groups example_heap_finalized) = [True, True]
   \<and> fst (finalize data_group_finalize example_transformer ([], example_heap_finalized)) = Inr ()
   \<and> snd (snd (finalize data_group_finalize example_transformer ([], example_heap_finalized)))
     = example_heap_finalized"
proof -
  have one: "example_heap_one =
      \<lparr>contexts = [\<lparr>global_context = [(''identity'', StrVal ''user-1''), (''state'', DataGroupRef 0),
                                     (''session'', DataGroupRef 1)],
                   local_context = []\<rparr>],
       groups = [\<lparr>dg_schema = \<lparr>schema_name = ''state'', schema_type = ''IdentityAggregate''\<rparr>,
                  dg_identity = ''user-1'', dg_evaluation_context = 0, dg_fields = [],
                  dg_sub_keys = [], dg_closed = False\<rparr>,
                 \<lparr>dg_schema = \<lparr>schema_name = ''session'', schema_type = ''IdentityAggregate''\<rparr>,
                  dg_identity = ''user-1'', dg_evaluation_context = 0, dg_fields = [],
                  dg_sub_keys = [], dg_closed = False\<rparr>],
       store = []\<rparr>"
    by (simp add: example_heap_one_def example_init_one)
  have first: "finalize data_group_finalize example_transformer ([], example_heap_one)
     = (Inr (), ([0, 1],
         \<lparr>contexts = [\<lparr>global_context = [(''identity'', StrVal ''user-1''), (''state'', DataGroupRef 0),
                                     (''session'', DataGroupRef 1)],
                   local_context = []\<rparr>],
       groups = [\<lparr>dg_schema = \<lparr>schema_name = ''state'', schema_type = ''IdentityAggregate''\<rparr>,
                  dg_identity = ''user-1'', dg_evaluation_context = 0, dg_fields = [],
                  dg_sub_keys = [], dg_closed = True\<rparr>,
                 \<lparr>dg_schema = \<lparr>schema_name = ''session'', schema_type = ''IdentityAggregate''\<rparr>,
                  dg_identity = ''user-1'', dg_evaluation_context = 0, dg_fields = [],
                  dg_sub_keys = [], dg_closed = True\<rparr>],
       store = [(\<lparr>key_type = DIMENSION, key_identity = ''user-1'', key_group_name = ''state'',
                   key_sub_keys = []\<rparr>, []),
                (\<lparr>key_type = DIMENSION, key_identity = ''user-1'', key_group_name = ''session'',
                   key_sub_keys = []\<rparr>, [])]\<rparr>))"
    by (simp add: one finalize_def nested_items_def example_transformer_def
        data_group_finalize_def deref_def data_group_key_def)
  have fin: "finalize data_group_finalize example_transformer ([], example_heap_one)
     = (Inr (), ([0, 1], example_heap_finalized))"
    by (simp add: example_heap_finalized_def first)
  have st: "map fst (store example_heap_finalized)
     = [\<lparr>key_type = DIMENSION, key_identity = ''user-1'', key_group_name = ''state'',
          key_sub_keys = []\<rparr>,
        \<lparr>key_type = DIMENSION, key_identity = ''user-1'', key_group_name = ''session'',
          key_sub_keys = []\<rparr>]"
    and cl: "map dg_closed (groups example_heap_finalized) = [True, True]"
    by (simp_all add: example_heap_finalized_def first)
  from finalize_idempotent [of example_transformer "[]" "[]" example_heap_one]
  have "fst (finalize data_group_finalize example_transformer ([], example_heap_finalized)) = Inr ()"
    and "snd (snd (finalize data_group_finalize example_transformer ([], example_heap_finalized)))
     = example_heap_finalized"
    by (simp_all add: fin)
  with fin st cl show ?thesis by simp
qed

subsection \<open>TransformerSchema: the required and the optional attributes\<close>

lemmas attribute_names =
  ATTRIBUTE_NAME_def ATTRIBUTE_VERSION_def ATTRIBUTE_DESCRIPTION_def ATTRIBUTE_STORES_def
  ATTRIBUTE_DATA_GROUPS_def ATTRIBUTE_IMPORT_def ATTRIBUTE_IMPORT_MODULE_def
  ATTRIBUTE_IMPORT_IDENTIFIER_def

lemma map_of_absent: "k \<notin> fst ` set d \<Longrightarrow> map_of d k = None"
  by (simp add: map_of_eq_None_iff)

lemma transformer_schema_init_no_version:
  assumes "base_init fqn loader ATTRIBUTE_DATA_GROUPS = Inr b"
      and "ATTRIBUTE_VERSION \<notin> fst ` set (p_spec b)"
  shows "transformer_schema_init base_init importer fqn loader h =
           (Inl (KeyError ATTRIBUTE_VERSION), h)"
  using assms by (simp add: transformer_schema_init_def map_of_absent)

lemma transformer_schema_init_optional_absent:
  assumes b: "base_init fqn loader ATTRIBUTE_DATA_GROUPS = Inr b"
      and v: "map_of (p_spec b) ATTRIBUTE_VERSION = Some ver"
      and s: "ATTRIBUTE_STORES \<notin> fst ` set (p_spec b)"
      and i: "ATTRIBUTE_IMPORT \<notin> fst ` set (p_spec b)"
  shows "transformer_schema_init base_init importer fqn loader h =
           (Inr \<lparr>fully_qualified_name = fully_qualified_name b,
                 schema_loader = schema_loader b,
                 p_spec = p_spec b,
                 name = name b,
                 nested_schema = nested_schema b,
                 version = ver,
                 description = map_of (p_spec b) ATTRIBUTE_DESCRIPTION,
                 stores = [],
                 import_list = None,
                 schema_context = length (contexts h)\<rparr>,
            h\<lparr>contexts := contexts h @ [\<lparr>global_context = [], local_context = []\<rparr>]\<rparr>)"
  using b v map_of_absent [OF s] map_of_absent [OF i]
  by (simp add: transformer_schema_init_def new_context_def import_modules_def)

text \<open>
  C8. Constructing a TransformerSchema fails at schema-build time when the attribute
  mapping lacks \<^verbatim>\<open>Version\<close>: the constructor itself raises (\<^verbatim>\<open>KeyError\<close> at line 32,
  or earlier the error of the base constructor), and the heap is as before. When
  \<^verbatim>\<open>Version\<close> is present the constructor records it, and the absence of
  \<^verbatim>\<open>Description\<close>, \<^verbatim>\<open>Stores\<close> and \<^verbatim>\<open>Import\<close> causes no failure: the description is
  \<^verbatim>\<open>None\<close>, the stores are empty and nothing is imported.
\<close>

theorem transformer_schema_init_requires_version:
  "(base_init fqn loader ATTRIBUTE_DATA_GROUPS = Inl e \<longrightarrow>
        transformer_schema_init base_init importer fqn loader h = (Inl e, h))
   \<and> (base_init fqn loader ATTRIBUTE_DATA_GROUPS = Inr b
      \<and> ATTRIBUTE_VERSION \<notin> fst ` set (p_spec b) \<longrightarrow>
        transformer_schema_init base_init importer fqn loader h =
          (Inl (KeyError ATTRIBUTE_VERSION), h))
   \<and> (base_init fqn loader ATTRIBUTE_DATA_GROUPS = Inr b
      \<and> map_of (p_spec b) ATTRIBUTE_VERSION = Some ver
      \<and> ATTRIBUTE_STORES \<notin> fst ` set (p_spec b)
      \<and> ATTRIBUTE_IMPORT \<notin> fst ` set (p_spec b) \<longrightarrow>
        (\<exists>self h'. transformer_schema_init base_init importer fqn loader h = (Inr self, h')
           \<and> version self = ver
           \<and> description self = map_of (p_spec b) ATTRIBUTE_DESCRIPTION
           \<and> (ATTRIBUTE_DESCRIPTION \<notin> fst ` set (p_spec b) \<longrightarrow> description self = None)
           \<and> stores self = []
           \<and> import_list self = None))"
proof (intro conjI impI)
  assume "base_init fqn loader ATTRIBUTE_DATA_GROUPS = Inl e"
  then show "transformer_schema_init base_init importer fqn loader h = (Inl e, h)"
    by (simp add: transformer_schema_init_def)
next
  assume "base_init fqn loader ATTRIBUTE_DATA_GROUPS = Inr b
      \<and> ATTRIBUTE_VERSION \<notin> fst ` set (p_spec b)"
  then show "transformer_schema_init base_init importer fqn loader h =
          (Inl (KeyError ATTRIBUTE_VERSION), h)"
    by (simp add: transformer_schema_init_no_version)
next
  assume a: "base_init fqn loader ATTRIBUTE_DATA_GROUPS = Inr b
      \<and> map_of (p_spec b) ATTRIBUTE_VERSION = Some ver
      \<and> ATTRIBUTE_STORES \<notin> fst ` set (p_spec b)
      \<and> ATTRIBUTE_IMPORT \<notin> fst ` set (p_spec b)"
  then have "transformer_schema_init base_init importer fqn loader h =
           (Inr \<lparr>fully_qualified_name = fully_qualified_name b,
                 schema_loader = schema_loader b,
                 p_spec = p_spec b,
                 name = name b,
                 nested_schema = nested_schema b,
                 version = ver,
                 description = map_of (p_spec b) ATTRIBUTE_DESCRIPTION,
                 stores = [],
                 import_list = None,
                 schema_context = length (contexts h)\<rparr>,
            h\<lparr>contexts := contexts h @ [\<lparr>global_context = [], local_context = []\<rparr>]\<rparr>)"
    by (intro transformer_schema_init_optional_absent) simp_all
  then show "\<exists>self h'. transformer_schema_init base_init importer fqn loader h = (Inr self, h')
           \<and> version self = ver
           \<and> description self = map_of (p_spec b) ATTRIBUTE_DESCRIPTION
           \<and> (ATTRIBUTE_DESCRIPTION \<notin> fst ` set (p_spec b) \<longrightarrow> description self = None)
           \<and> stores self = []
           \<and> import_list self = None"
    by (simp add: map_of_absent)
qed

theorem transformer_schema_init_requires_version_witness:
  "transformer_schema_init (example_base_init spec_without_version) example_importer
       ''example'' example_loader example_heap
     = (Inl (KeyError ''Version''), example_heap)
   \<and> fst (transformer_schema_init (example_base_init spec_version_only) example_importer
       ''example'' example_loader example_heap)
     = Inr \<lparr>fully_qualified_name = ''example'', schema_loader = example_loader,
            p_spec = spec_version_only, name = ''example'',
            nested_schema =
              [(''state'', \<lparr>schema_name = ''state'', schema_type = ''IdentityAggregate''\<rparr>),
               (''session'', \<lparr>schema_name = ''session'', schema_type = ''IdentityAggregate''\<rparr>)],
            version = SStr ''2018-03-01'', description = None, stores = [],
            import_list = None, schema_context = 1\<rparr>"
proof -
  let ?b1 = "example_base spec_without_version ''example'' example_loader"
  let ?b2 = "example_base spec_version_only ''example'' example_loader"
  have b1: "example_base_init spec_without_version ''example'' example_loader
              ATTRIBUTE_DATA_GROUPS = Inr ?b1"
    and b2: "example_base_init spec_version_only ''example'' example_loader
              ATTRIBUTE_DATA_GROUPS = Inr ?b2"
    by (simp_all add: example_base_init_def)
  have nv: "ATTRIBUTE_VERSION \<notin> fst ` set (p_spec ?b1)"
    by (simp add: example_base_def spec_without_version_def attribute_names)
  have v: "map_of (p_spec ?b2) ATTRIBUTE_VERSION = Some (SStr ''2018-03-01'')"
    and ns: "ATTRIBUTE_STORES \<notin> fst ` set (p_spec ?b2)"
    and ni: "ATTRIBUTE_IMPORT \<notin> fst ` set (p_spec ?b2)"
    and nd: "ATTRIBUTE_DESCRIPTION \<notin> fst ` set (p_spec ?b2)"
    by (simp_all add: example_base_def spec_version_only_def attribute_names)
  from transformer_schema_init_requires_version
    [of "example_base_init spec_without_version" "''example''" example_loader _
        example_importer example_heap ?b1] b1 nv
  have one: "transformer_schema_init (example_base_init spec_without_version) example_importer
       ''example'' example_loader example_heap
     = (Inl (KeyError ''Version''), example_heap)"
    by (simp add: ATTRIBUTE_VERSION_def)
  from transformer_schema_init_requires_version
    [of "example_base_init spec_version_only" "''example''" example_loader _
        example_importer example_heap ?b2 "SStr ''2018-03-01''"] b2 v ns ni nd
  obtain self h' where
    s: "transformer_schema_init (example_base_init spec_version_only) example_importer
          ''example'' example_loader example_heap = (Inr self, h')"
    and s1: "version self = SStr ''2018-03-01''" and s2: "description self = None"
    and s3: "stores self = []" and s4: "import_list self = None"
    by blast
  have two: "fst (transformer_schema_init (example_base_init spec_version_only) example_importer
       ''example'' example_loader example_heap)
     = Inr \<lparr>fully_qualified_name = ''example'', schema_loader = example_loader,
            p_spec = spec_version_only, name = ''example'',
            nested_schema =
              [(''state'', \<lparr>schema_name = ''state'', schema_type = ''IdentityAggregate''\<rparr>),
               (''session'', \<lparr>schema_name = ''session'', schema_type = ''IdentityAggregate''\<rparr>)],
            version = SStr ''2018-03-01'', description = None, stores = [],
            import_list = None, schema_context = 1\<rparr>"
    using v ns ni nd
    by (simp add: transformer_schema_init_def b2 map_of_absent new_context_def
          import_modules_def)
       (simp add: example_base_def example_heap_def)
  from one two show ?thesis by simp
qed


subsection \<open>TransformerSchema: stores\<close>

lemma load_stores_result:
  assumes "\<forall>e \<in> set es. \<exists>n v. subscript e ATTRIBUTE_NAME = Inr (SStr n)
              \<and> get_nested_schema_object loader fqn (SStr n) = Inr v"
  shows "\<exists>d'. load_stores loader fqn es d = Inr d'
           \<and> fst ` set d' = fst ` set d \<union> {n. \<exists>e \<in> set es. subscript e ATTRIBUTE_NAME = Inr (SStr n)}
           \<and> (distinct (map fst d) \<longrightarrow> distinct (map fst d'))
           \<and> (\<forall>n. (\<exists>e \<in> set es. subscript e ATTRIBUTE_NAME = Inr (SStr n)) \<longrightarrow>
                  Inr (the (map_of d' n)) = get_nested_schema_object loader fqn (SStr n))
           \<and> (\<forall>n. \<not> (\<exists>e \<in> set es. subscript e ATTRIBUTE_NAME = Inr (SStr n)) \<longrightarrow>
                  map_of d' n = map_of d n)"
  using assms
proof (induction es arbitrary: d)
  case Nil
  show ?case by simp
next
  case (Cons e es)
  from Cons.prems obtain n v where
    n: "subscript e ATTRIBUTE_NAME = Inr (SStr n)"
    and v: "get_nested_schema_object loader fqn (SStr n) = Inr v"
    by auto
  from Cons.prems have rest: "\<forall>e \<in> set es. \<exists>n v. subscript e ATTRIBUTE_NAME = Inr (SStr n)
              \<and> get_nested_schema_object loader fqn (SStr n) = Inr v"
    by simp
  let ?d1 = "AList.update n v d"
  from Cons.IH [OF rest, of ?d1] obtain d' where
    l: "load_stores loader fqn es ?d1 = Inr d'"
    and k: "fst ` set d' = fst ` set ?d1 \<union> {n. \<exists>e \<in> set es. subscript e ATTRIBUTE_NAME = Inr (SStr n)}"
    and dd: "distinct (map fst ?d1) \<longrightarrow> distinct (map fst d')"
    and m1: "\<forall>n. (\<exists>e \<in> set es. subscript e ATTRIBUTE_NAME = Inr (SStr n)) \<longrightarrow>
                  Inr (the (map_of d' n)) = get_nested_schema_object loader fqn (SStr n)"
    and m2: "\<forall>n. \<not> (\<exists>e \<in> set es. subscript e ATTRIBUTE_NAME = Inr (SStr n)) \<longrightarrow>
                  map_of d' n = map_of ?d1 n"
    by blast
  have step: "load_stores loader fqn (e # es) d = Inr d'"
    by (simp add: n v l)
  have keys: "fst ` set d' =
      fst ` set d \<union> {n. \<exists>e \<in> set (e # es). subscript e ATTRIBUTE_NAME = Inr (SStr n)}"
    using k n by (auto simp: dom_update)
  have dist: "distinct (map fst d) \<longrightarrow> distinct (map fst d')"
    using dd by (simp add: distinct_update)
  have a: "Inr (the (map_of d' m)) = get_nested_schema_object loader fqn (SStr m)"
    if "\<exists>e \<in> set (e # es). subscript e ATTRIBUTE_NAME = Inr (SStr m)" for m
  proof (cases "\<exists>e \<in> set es. subscript e ATTRIBUTE_NAME = Inr (SStr m)")
    case True
    with m1 show ?thesis by blast
  next
    case False
    with that n have "m = n" by auto
    moreover from False m2 have "map_of d' m = map_of ?d1 m" by blast
    ultimately show ?thesis by (simp add: update_conv' v)
  qed
  have b: "map_of d' m = map_of d m"
    if "\<not> (\<exists>e \<in> set (e # es). subscript e ATTRIBUTE_NAME = Inr (SStr m))" for m
  proof -
    from that n have "m \<noteq> n" by auto
    moreover from that m2 have "map_of d' m = map_of ?d1 m" by simp
    ultimately show ?thesis by (simp add: update_conv')
  qed
  from step keys dist a b show ?case by blast
qed


text \<open>
  C9, as stated, fails. The claim: for a specification whose \<^verbatim>\<open>Stores\<close> sequence holds
  two entries with the same \<^verbatim>\<open>Name\<close>, construction detects the duplicate and fails. At
  the mapping with two stores named \<^verbatim>\<open>memory\<close> construction returns a schema, and its
  \<^verbatim>\<open>stores\<close> dictionary holds a single entry.
\<close>

theorem transformer_schema_init_duplicate_stores_counterexample:
  "fst (transformer_schema_init (example_base_init spec_duplicate_stores) example_importer
          ''example'' example_loader example_heap)
     = Inr \<lparr>fully_qualified_name = ''example'', schema_loader = example_loader,
            p_spec = spec_duplicate_stores, name = ''example'',
            nested_schema =
              [(''state'', \<lparr>schema_name = ''state'', schema_type = ''IdentityAggregate''\<rparr>),
               (''session'', \<lparr>schema_name = ''session'', schema_type = ''IdentityAggregate''\<rparr>)],
            version = SStr ''2018-03-01'', description = None,
            stores = [(''memory'', \<lparr>schema_name = ''memory'', schema_type = ''MemoryStore''\<rparr>)],
            import_list = None, schema_context = 1\<rparr>"
  by (simp add: transformer_schema_init_def example_base_init_def)
     (simp add: example_base_def spec_duplicate_stores_def attribute_names example_loader_def
        new_context_def import_modules_def example_heap_def)

text \<open>
  C9, amended. Construction does not look for duplicate store names. For a specification
  whose \<^verbatim>\<open>Stores\<close> entries each have a \<^verbatim>\<open>Name\<close> that the schema loader resolves (and
  that declares no imports), construction returns a schema whether or not two entries
  share a name: the \<^verbatim>\<open>stores\<close> dictionary has exactly one entry per distinct name,
  holding the store schema the loader returns for that name, so entries of the same name
  are silently merged into one.
\<close>

theorem transformer_schema_init_keeps_one_store_per_name:
  assumes b: "base_init fqn loader ATTRIBUTE_DATA_GROUPS = Inr b"
      and v: "map_of (p_spec b) ATTRIBUTE_VERSION = Some ver"
      and st: "map_of (p_spec b) ATTRIBUTE_STORES = Some (SList es)"
      and ok: "\<forall>e \<in> set es. \<exists>n v. subscript e ATTRIBUTE_NAME = Inr (SStr n)
                 \<and> get_nested_schema_object (schema_loader b) (fully_qualified_name b) (SStr n) = Inr v"
      and ni: "ATTRIBUTE_IMPORT \<notin> fst ` set (p_spec b)"
  shows "\<exists>self h'. transformer_schema_init base_init importer fqn loader h = (Inr self, h')
     \<and> distinct (map fst (stores self))
     \<and> fst ` set (stores self) = {n. \<exists>e \<in> set es. subscript e ATTRIBUTE_NAME = Inr (SStr n)}
     \<and> length (stores self) = card {n. \<exists>e \<in> set es. subscript e ATTRIBUTE_NAME = Inr (SStr n)}
     \<and> (\<forall>n s. map_of (stores self) n = Some s \<longrightarrow>
           get_nested_schema_object (schema_loader b) (fully_qualified_name b) (SStr n) = Inr s)"
proof -
  let ?names = "{n. \<exists>e \<in> set es. subscript e ATTRIBUTE_NAME = Inr (SStr n)}"
  from load_stores_result [OF ok, of "[]"] obtain sts where
    l: "load_stores (schema_loader b) (fully_qualified_name b) es [] = Inr sts"
    and k: "fst ` set sts = ?names"
    and d: "distinct (map fst sts)"
    and m: "\<forall>n. (\<exists>e \<in> set es. subscript e ATTRIBUTE_NAME = Inr (SStr n)) \<longrightarrow>
              Inr (the (map_of sts n)) =
                get_nested_schema_object (schema_loader b) (fully_qualified_name b) (SStr n)"
    by auto
  define self where "self =
    \<lparr>fully_qualified_name = fully_qualified_name b, schema_loader = schema_loader b,
     p_spec = p_spec b, name = name b, nested_schema = nested_schema b,
     version = ver, description = map_of (p_spec b) ATTRIBUTE_DESCRIPTION,
     stores = sts, import_list = None, schema_context = length (contexts h)\<rparr>"
  have i: "transformer_schema_init base_init importer fqn loader h =
      (Inr self, h\<lparr>contexts := contexts h @ [\<lparr>global_context = [], local_context = []\<rparr>]\<rparr>)"
    using b v st l map_of_absent [OF ni]
    by (simp add: transformer_schema_init_def new_context_def import_modules_def self_def)
  have s: "stores self = sts" by (simp add: self_def)
  have len: "length sts = card ?names"
  proof -
    have "card (set (map fst sts)) = length (map fst sts)"
      using d by (rule distinct_card)
    then show ?thesis using k by simp
  qed
  have val: "get_nested_schema_object (schema_loader b) (fully_qualified_name b) (SStr n) = Inr x"
    if "map_of sts n = Some x" for n x
  proof -
    from that have "n \<in> fst ` set sts" by (metis map_of_eq_None_iff option.distinct(1))
    with k have "\<exists>e \<in> set es. subscript e ATTRIBUTE_NAME = Inr (SStr n)" by simp
    with m have "Inr (the (map_of sts n)) =
        get_nested_schema_object (schema_loader b) (fully_qualified_name b) (SStr n)"
      by blast
    with that show ?thesis by simp
  qed
  from i d k len val show ?thesis
    by (intro exI [of _ self] exI [of _ "h\<lparr>contexts := contexts h @ [\<lparr>global_context = [], local_context = []\<rparr>]\<rparr>"])
       (simp add: s)
qed

theorem transformer_schema_init_keeps_one_store_per_name_witness:
  "subscript (SMap [(''Name'', SStr ''memory''), (''Type'', SStr ''MemoryStore'')]) ATTRIBUTE_NAME
     = Inr (SStr ''memory'')
   \<and> subscript (SMap [(''Name'', SStr ''memory''), (''Type'', SStr ''DynamoStore'')]) ATTRIBUTE_NAME
     = Inr (SStr ''memory'')
   \<and> get_nested_schema_object example_loader ''example'' (SStr ''memory'')
     = Inr \<lparr>schema_name = ''memory'', schema_type = ''MemoryStore''\<rparr>
   \<and> map_sum id (\<lambda>self. length (stores self))
        (fst (transformer_schema_init (example_base_init spec_duplicate_stores) example_importer
               ''example'' example_loader example_heap)) = Inr 1"
proof -
  let ?b = "example_base spec_duplicate_stores ''example'' example_loader"
  let ?es = "[SMap [(''Name'', SStr ''memory''), (''Type'', SStr ''MemoryStore'')],
              SMap [(''Name'', SStr ''memory''), (''Type'', SStr ''DynamoStore'')]]"
  have b: "example_base_init spec_duplicate_stores ''example'' example_loader
              ATTRIBUTE_DATA_GROUPS = Inr ?b"
    by (simp add: example_base_init_def)
  have v: "map_of (p_spec ?b) ATTRIBUTE_VERSION = Some (SStr ''2018-03-01'')"
    and st: "map_of (p_spec ?b) ATTRIBUTE_STORES = Some (SList ?es)"
    and ni: "ATTRIBUTE_IMPORT \<notin> fst ` set (p_spec ?b)"
    by (simp_all add: example_base_def spec_duplicate_stores_def attribute_names)
  have n1: "subscript (?es ! 0) ATTRIBUTE_NAME = Inr (SStr ''memory'')"
    and n2: "subscript (?es ! 1) ATTRIBUTE_NAME = Inr (SStr ''memory'')"
    by (simp_all add: attribute_names)
  have g: "get_nested_schema_object example_loader ''example'' (SStr ''memory'')
     = Inr \<lparr>schema_name = ''memory'', schema_type = ''MemoryStore''\<rparr>"
    by (simp add: example_loader_def)
  have ok: "\<forall>e \<in> set ?es. \<exists>n v. subscript e ATTRIBUTE_NAME = Inr (SStr n)
       \<and> get_nested_schema_object (schema_loader ?b) (fully_qualified_name ?b) (SStr n) = Inr v"
    using n1 n2 g by (simp add: example_base_def)
  have names: "{n. \<exists>e \<in> set ?es. subscript e ATTRIBUTE_NAME = Inr (SStr n)} = {''memory''}"
    using n1 n2 by auto
  from transformer_schema_init_keeps_one_store_per_name
    [where base_init = "example_base_init spec_duplicate_stores" and fqn = "''example''"
       and loader = example_loader and b = ?b and importer = example_importer
       and h = example_heap, OF b v st ok ni]
  obtain self h' where
    i: "transformer_schema_init (example_base_init spec_duplicate_stores) example_importer
        ''example'' example_loader example_heap = (Inr self, h')"
    and c: "length (stores self) = card {n. \<exists>e \<in> set ?es. subscript e ATTRIBUTE_NAME = Inr (SStr n)}"
    by blast
  from c have "length (stores self) = 1"
    unfolding names by simp
  with i have "map_sum id (\<lambda>self. length (stores self))
        (fst (transformer_schema_init (example_base_init spec_duplicate_stores) example_importer
               ''example'' example_loader example_heap)) = Inr 1"
    by simp
  with n1 n2 g show ?thesis by simp
qed


subsection \<open>TransformerSchema: imports\<close>

text \<open>
  After an entry without an \<^verbatim>\<open>Identifier\<close> list the loop is left (the \<^verbatim>\<open>return\<close> of
  line 57): the result does not depend on the entries that follow.
\<close>

lemma import_loop_returns_after_module:
  assumes "subscript custom_import ATTRIBUTE_IMPORT_MODULE = Inr module"
      and "importer module = Inr module_obj"
      and "\<not> py_in ATTRIBUTE_IMPORT_IDENTIFIER custom_import"
  shows "import_loop importer c (custom_import # rest) h =
           (case hashable module of
              Inl e \<Rightarrow> (Inl e, h)
            | Inr mk \<Rightarrow> global_add c mk module_obj h)"
  using assms by simp

text \<open>
  C3. The claim: building the schema registers the symbols of every entry of the import
  list, and no entry is skipped. The code does not do so. With the import list
  \<^verbatim>\<open>[{Module: m1}, {Module: m2, Identifier: [f]}]\<close> construction returns a schema whose
  global scope binds \<^verbatim>\<open>m1\<close> only: \<^verbatim>\<open>f\<close>, an attribute of \<^verbatim>\<open>m2\<close>, is not bound.
  With the two entries in the other order both \<^verbatim>\<open>f\<close> and \<^verbatim>\<open>m1\<close> are bound.
\<close>

theorem import_modules_skips_entries_after_module_import:
  "fst (transformer_schema_init (example_base_init spec_import_module_first) example_importer
          ''example'' example_loader example_heap)
     = Inr \<lparr>fully_qualified_name = ''example'', schema_loader = example_loader,
            p_spec = spec_import_module_first, name = ''example'',
            nested_schema =
              [(''state'', \<lparr>schema_name = ''state'', schema_type = ''IdentityAggregate''\<rparr>),
               (''session'', \<lparr>schema_name = ''session'', schema_type = ''IdentityAggregate''\<rparr>)],
            version = SStr ''2018-03-01'', description = None, stores = [],
            import_list = Some (SList [SMap [(''Module'', SStr ''m1'')],
                                      SMap [(''Module'', SStr ''m2''),
                                            (''Identifier'', SList [SStr ''f''])]]),
            schema_context = 1\<rparr>
   \<and> global_context (contexts (snd (transformer_schema_init
          (example_base_init spec_import_module_first) example_importer
          ''example'' example_loader example_heap)) ! 1)
     = [(''m1'', ModuleVal ''m1'' [(''g'', ObjVal ''m1.g'')])]
   \<and> resolve_global (snd (transformer_schema_init
          (example_base_init spec_import_module_first) example_importer
          ''example'' example_loader example_heap)) 1 ''f'' = None
   \<and> py_getattr (ModuleVal ''m2'' [(''f'', ObjVal ''m2.f'')]) ''f'' = Inr (ObjVal ''m2.f'')
   \<and> global_context (contexts (snd (transformer_schema_init
          (example_base_init spec_import_module_last) example_importer
          ''example'' example_loader example_heap)) ! 1)
     = [(''f'', ObjVal ''m2.f''), (''m1'', ModuleVal ''m1'' [(''g'', ObjVal ''m1.g'')])]"
proof -
  have first: "transformer_schema_init (example_base_init spec_import_module_first)
      example_importer ''example'' example_loader example_heap =
    (Inr \<lparr>fully_qualified_name = ''example'', schema_loader = example_loader,
            p_spec = spec_import_module_first, name = ''example'',
            nested_schema =
              [(''state'', \<lparr>schema_name = ''state'', schema_type = ''IdentityAggregate''\<rparr>),
               (''session'', \<lparr>schema_name = ''session'', schema_type = ''IdentityAggregate''\<rparr>)],
            version = SStr ''2018-03-01'', description = None, stores = [],
            import_list = Some (SList [SMap [(''Module'', SStr ''m1'')],
                                      SMap [(''Module'', SStr ''m2''),
                                            (''Identifier'', SList [SStr ''f''])]]),
            schema_context = 1\<rparr>,
     \<lparr>contexts = [\<lparr>global_context = [], local_context = []\<rparr>,
                  \<lparr>global_context = [(''m1'', ModuleVal ''m1'' [(''g'', ObjVal ''m1.g'')])],
                   local_context = []\<rparr>],
      groups = [], store = []\<rparr>)"
    by (simp add: transformer_schema_init_def example_base_init_def)
       (simp add: example_base_def spec_import_module_first_def attribute_names
          new_context_def import_modules_def example_heap_def example_importer_def
          global_add_def deref_def)
  have last: "snd (transformer_schema_init (example_base_init spec_import_module_last)
      example_importer ''example'' example_loader example_heap) =
     \<lparr>contexts = [\<lparr>global_context = [], local_context = []\<rparr>,
                  \<lparr>global_context = [(''f'', ObjVal ''m2.f''),
                                    (''m1'', ModuleVal ''m1'' [(''g'', ObjVal ''m1.g'')])],
                   local_context = []\<rparr>],
      groups = [], store = []\<rparr>"
    by (simp add: transformer_schema_init_def example_base_init_def)
       (simp add: example_base_def spec_import_module_last_def attribute_names
          new_context_def import_modules_def example_heap_def example_importer_def
          global_add_def deref_def)
  show ?thesis
    by (simp add: first last resolve_global_def deref_def)
qed


end
